theory Spec2Isabelle
  imports Main "HOL-Library.AList"
begin

section \<open>Barcode codec\<close>

text \<open>
  The class \<open>BarcodeDecoderService\<close> is imported by \<open>ScannerService\<close> and
  \<open>ProductService\<close> but its file is not part of the sources. Its \<open>normalize\<close>
  is modelled from section 4.2 of the specification; its \<open>decode\<close> is taken as a
  parameter by the operations that call it.

  Strings are byte lists. The character classes are the ASCII ones, read through the
  character code.
\<close>

definition isDigit :: "char \<Rightarrow> bool" where
  "isDigit c = (48 \<le> (of_char c :: nat) \<and> (of_char c :: nat) \<le> 57)"

definition isUpper :: "char \<Rightarrow> bool" where
  "isUpper c = (65 \<le> (of_char c :: nat) \<and> (of_char c :: nat) \<le> 90)"

definition isLower :: "char \<Rightarrow> bool" where
  "isLower c = (97 \<le> (of_char c :: nat) \<and> (of_char c :: nat) \<le> 122)"

definition isAlnum :: "char \<Rightarrow> bool" where
  "isAlnum c = (isDigit c \<or> isUpper c \<or> isLower c)"

definition toUpper :: "char \<Rightarrow> char" where
  "toUpper c = (if isLower c then char_of ((of_char c :: nat) - 32) else c)"

text \<open>The canonical length of a numeric code: the twelve digits of UPC-A.\<close>

definition canonicalLength :: nat where
  "canonicalLength = 12"

definition isNumeric :: "string \<Rightarrow> bool" where
  "isNumeric s = (s \<noteq> [] \<and> list_all isDigit s)"

definition leftPad :: "string \<Rightarrow> string" where
  "leftPad s =
     (if isNumeric s \<and> length s < canonicalLength
      then replicate (canonicalLength - length s) (CHR ''0'') @ s
      else s)"

text \<open>
  Modelled from the spec: \<open>BarcodeDecoderService.normalize\<close>, whose source is
  missing. Section 4.2: it ``strips non-alphanumeric separators, upper-cases alphabetic
  payloads, left-pads numeric UPC/EAN codes to canonical length''. The three steps are
  applied in that order. A numeric code is a non-empty run of digits; one shorter than
  the twelve digits of UPC-A is padded with zeros on the left to twelve, and a code of
  twelve digits (UPC-A), thirteen (EAN-13) or more is left as it is. The constant is named \<open>normalize_barcode\<close> because
  \<open>normalize\<close> is a constant of the library.
\<close>

definition normalize_barcode :: "string \<Rightarrow> string" where
  "normalize_barcode raw = leftPad (map toUpper (filter isAlnum raw))"

text \<open>
  \<open>DecodedBarcode\<close> as \<open>ScannerService\<close> and \<open>ProductService\<close> read it
  (\<open>rawValue\<close>, \<open>isValid\<close>, \<open>format\<close>, \<open>confidence\<close>); the confidence is only
  carried along and is kept as a scaled integer.
\<close>

datatype BarcodeFormat = UPC | EAN | QR | CODE128 | UNKNOWN

record DecodedBarcode =
  rawValue :: string
  normalizedValue :: string
  format :: BarcodeFormat
  isValid :: bool
  confidence :: int


section \<open>Entities\<close>

text \<open>
  \<open>Product.entity\<close>: the columns that the services read or write. The primary key
  \<open>id\<close> is called \<open>productId\<close> here, \<open>id\<close> being the identity function of the
  library. \<open>Inventory.entity\<close> is not part of the sources; its columns are the ones
  \<open>ProductService.createProduct\<close> and \<open>Product.isLowStock\<close> touch. Quantities are
  integers.
\<close>

datatype BarcodeType = UPC | EAN | QR | CODE128

record Inventory =
  quantityOnHand :: int
  quantityReserved :: int
  reorderLevel :: int
  reorderQuantity :: int

record Product =
  productId :: string
  barcode :: string
  barcodeType :: BarcodeType
  name :: string
  description :: "string option"
  sku :: "string option"
  manufacturer :: "string option"
  priceUsd :: int
  costUsd :: int
  imageUrl :: "string option"
  isActive :: bool
  createdBy :: string
  inventory :: "Inventory option"


section \<open>Exceptions, effects and the world\<close>

text \<open>
  A thrown value is an \<open>Error\<close> object (its \<open>name\<close> and \<open>message\<close>) or some other
  value, of which only the string rendering is kept. \<open>errorMessage\<close> is the expression
  \<^verbatim>\<open>error instanceof Error ? error.message : 'Unknown error'\<close> of the catch blocks, and
  \<open>errorString\<close> the rendering \<^verbatim>\<open>${error}\<close> in \<open>BaseRepository\<close>: the name, a
  colon and the message, or the one of the two that is not empty.
\<close>

datatype thrown = Error string string | NonError string

fun errorMessage :: "thrown \<Rightarrow> string" where
  "errorMessage (Error nm msg) = msg"
| "errorMessage (NonError s) = ''Unknown error''"

fun errorString :: "thrown \<Rightarrow> string" where
  "errorString (Error nm msg) =
     (if nm = [] then msg else if msg = [] then nm else nm @ '': '' @ msg)"
| "errorString (NonError s) = s"

text \<open>
  Every call that leaves the service (cache, repository, console) is recorded in a trace,
  in the order in which it is issued. \<open>console.error\<close> is given a label and the thrown
  value; the event keeps both.
\<close>

datatype event =
    CacheGet string
  | CacheSet string
  | CacheDelete string
  | CacheDeleteByPattern string
  | CacheIncrement string
  | RepoFindByBarcode string
  | RepoFindBySku string
  | RepoSave string
  | ConsoleWarn string
  | ConsoleError string thrown

datatype cval = CProduct Product | CNum int

text \<open>
  The world of one service instance: the live cache entries (key, value, ttl in seconds
  where one was given), the rows of the \<open>products\<close> table, the counter behind the
  generated primary keys, the trace, and a fault schedule. The fault schedule makes every
  call to the cache or to the repository fallible: the call issued when the trace has
  length \<open>n\<close> is rejected with \<open>e\<close> when \<open>faults w n = Some e\<close>. An entry whose ttl has
  elapsed is not in \<open>cache\<close>: section 4.1 makes it a miss.
\<close>

record world =
  cache :: "(string \<times> cval \<times> nat option) list"
  products :: "Product list"
  nextId :: nat
  trace :: "event list"
  faults :: "nat \<Rightarrow> thrown option"

type_synonym 'a io = "world \<Rightarrow> (thrown + 'a) \<times> world"

definition resolve :: "'a \<Rightarrow> 'a io" where
  "resolve x w = (Inr x, w)"

definition throw :: "thrown \<Rightarrow> 'a io" where
  "throw e w = (Inl e, w)"

definition await :: "'a io \<Rightarrow> ('a \<Rightarrow> 'b io) \<Rightarrow> 'b io" where
  "await m f w = (case m w of (Inl e, w') \<Rightarrow> (Inl e, w') | (Inr x, w') \<Rightarrow> f x w')"

definition tryCatch :: "'a io \<Rightarrow> (thrown \<Rightarrow> 'a io) \<Rightarrow> 'a io" where
  "tryCatch m h w = (case m w of (Inl e, w') \<Rightarrow> h e w' | (Inr x, w') \<Rightarrow> (Inr x, w'))"

definition emit :: "event \<Rightarrow> world \<Rightarrow> world" where
  "emit ev w = w\<lparr>trace := trace w @ [ev]\<rparr>"

definition call :: "event \<Rightarrow> 'a io \<Rightarrow> 'a io" where
  "call ev act w =
     (case faults w (length (trace w)) of
        Some e \<Rightarrow> (Inl e, emit ev w)
      | None \<Rightarrow> act (emit ev w))"

definition consoleWarn :: "string \<Rightarrow> unit io" where
  "consoleWarn msg w = (Inr (), emit (ConsoleWarn msg) w)"

definition consoleError :: "string \<Rightarrow> thrown \<Rightarrow> unit io" where
  "consoleError label error w = (Inr (), emit (ConsoleError label error) w)"

text \<open>
  Numbers inside template strings: the decimal digits, as JavaScript prints an integer
  of magnitude below \<open>10\<^sup>2\<^sup>1\<close>. Larger quantities, which JavaScript prints
  in exponent notation, and numbers that are not integers are outside the model.
\<close>

fun showNat :: "nat \<Rightarrow> string" where
  "showNat n =
     (if n < 10 then [''0123456789'' ! n]
      else showNat (n div 10) @ [''0123456789'' ! (n mod 10)])"

declare showNat.simps [simp del]

definition showInt :: "int \<Rightarrow> string" where
  "showInt i = (if i < 0 then CHR ''-'' # showNat (nat (- i)) else showNat (nat i))"


section \<open>Cache layer\<close>

text \<open>
  The class \<open>CacheService\<close> is not part of the sources; the operations below are
  modelled from section 4.1 of the specification. Values are held by value: what a
  caller does to an object it got from the cache does not change the entry.
\<close>

text \<open>
  Modelled from the spec: the glob of \<open>CacheService.deleteByPattern\<close>, in which
  ``\<open>*\<close> = any run of characters'' and every other character stands for itself.
\<close>

fun globMatch :: "string \<Rightarrow> string \<Rightarrow> bool" where
  "globMatch [] s = (s = [])"
| "globMatch (p # ps) s =
     (if p = CHR ''*''
      then (globMatch ps s \<or> (case s of [] \<Rightarrow> False | c # t \<Rightarrow> globMatch (p # ps) t))
      else (case s of [] \<Rightarrow> False | c # t \<Rightarrow> c = p \<and> globMatch ps t))"

text \<open>
  Modelled from the spec: \<open>CacheService.get\<close>. ``\<open>get(key) -> value|absent\<close>: never
  blocks on a miss; returns absent immediately.''
\<close>

definition cacheGet :: "string \<Rightarrow> cval option io" where
  "cacheGet key =
     call (CacheGet key) (\<lambda>w. (Inr (map_option fst (map_of (cache w) key)), w))"

text \<open>
  Modelled from the spec: \<open>CacheService.set\<close>. ``Stores value, schedules logical
  expiry at now+ttl. Overwrites any existing entry for that key unconditionally.''
\<close>

definition cacheSet :: "string \<Rightarrow> cval \<Rightarrow> nat option \<Rightarrow> unit io" where
  "cacheSet key v ttl =
     call (CacheSet key) (\<lambda>w. (Inr (), w\<lparr>cache := AList.update key (v, ttl) (cache w)\<rparr>))"

text \<open>
  Modelled from the spec: \<open>CacheService.delete\<close>. ``Removes the entry if present;
  no-op if absent; never fails on missing key.''
\<close>

definition cacheDelete :: "string \<Rightarrow> unit io" where
  "cacheDelete key =
     call (CacheDelete key) (\<lambda>w. (Inr (), w\<lparr>cache := AList.delete key (cache w)\<rparr>))"

text \<open>
  Modelled from the spec: \<open>CacheService.deleteByPattern\<close>. ``Removes every entry whose
  key matches a glob (\<open>*\<close> = any run of characters).''
\<close>

definition cacheDeleteByPattern :: "string \<Rightarrow> unit io" where
  "cacheDeleteByPattern pat =
     call (CacheDeleteByPattern pat)
       (\<lambda>w. (Inr (), w\<lparr>cache := filter (\<lambda>kv. \<not> globMatch pat (fst kv)) (cache w)\<rparr>))"

text \<open>
  Modelled from the spec: \<open>CacheService.increment\<close>. ``Atomically adds delta to a
  numeric counter stored at key, creating it at 0 if absent.'' An entry that is not a
  number counts as absent.
\<close>

definition cacheIncrement :: "string \<Rightarrow> int \<Rightarrow> int io" where
  "cacheIncrement key delta =
     call (CacheIncrement key)
       (\<lambda>w. case map_of (cache w) key of
               Some (CNum n, ttl) \<Rightarrow>
                 (Inr (n + delta), w\<lparr>cache := AList.update key (CNum (n + delta), ttl) (cache w)\<rparr>)
             | _ \<Rightarrow>
                 (Inr delta, w\<lparr>cache := AList.update key (CNum delta, None) (cache w)\<rparr>))"

text \<open>
  Modelled from the spec: the read inside \<open>CacheService.getOrSet\<close>, at the type
  \<^verbatim>\<open>Product | null\<close> of its callers. An entry that is not a product counts as
  absent there. (\<open>decodeScan\<close>, whose source is given, reads with \<open>cacheGet\<close> and
  tests the value it gets, whatever it is.)
\<close>

definition cacheGetProduct :: "string \<Rightarrow> Product option io" where
  "cacheGetProduct key =
     await (cacheGet key)
       (\<lambda>v. resolve (case v of Some (CProduct p) \<Rightarrow> Some p | _ \<Rightarrow> None))"

text \<open>
  Modelled from the spec: \<open>CacheService.getOrSet\<close>, at the type
  \<^verbatim>\<open>Product | null\<close> of its callers. ``Cache-aside helper. On hit, returns cached value.
  On miss'' it calls \<open>computeFn\<close> and populates the cache with the result. ``Failure of
  \<open>computeFn\<close> must not poison the cache --- no entry is written.'' A \<open>null\<close> result
  leaves no entry: a reader could not tell it from an absent one. The callers pass no
  ttl.
\<close>

definition getOrSet :: "string \<Rightarrow> Product option io \<Rightarrow> Product option io" where
  "getOrSet key computeFn =
     await (cacheGetProduct key)
       (\<lambda>cached. case cached of
            Some p \<Rightarrow> resolve (Some p)
          | None \<Rightarrow>
              await computeFn
                (\<lambda>v. case v of
                     None \<Rightarrow> resolve None
                   | Some p \<Rightarrow> await (cacheSet key (CProduct p) None) (\<lambda>_. resolve (Some p))))"


section \<open>Repository\<close>

text \<open>
  Modelled from the spec: \<open>ProductRepository.findByBarcode\<close> and
  \<open>ProductRepository.findBySku\<close>, whose class is not part of the sources. Section 6:
  \<open>findByBarcode(barcode) -> Product|absent\<close>, \<open>findBySku(sku) -> Product|absent\<close>: the
  row whose column equals the argument.
\<close>

definition repoFindByBarcode :: "string \<Rightarrow> Product option io" where
  "repoFindByBarcode b =
     call (RepoFindByBarcode b) (\<lambda>w. (Inr (find (\<lambda>p. barcode p = b) (products w)), w))"

definition repoFindBySku :: "string \<Rightarrow> Product option io" where
  "repoFindBySku s =
     call (RepoFindBySku s) (\<lambda>w. (Inr (find (\<lambda>p. sku p = Some s) (products w)), w))"

definition uuid :: "nat \<Rightarrow> string" where
  "uuid n = ''id-'' @ showNat n"

text \<open>
  \<open>Repository.save\<close> of the \<open>products\<close> table. \<open>Product.entity\<close> declares the columns
  \<open>barcode\<close> and \<open>sku\<close> with \<^verbatim>\<open>unique: true\<close> (\<open>sku\<close> nullable): inserting a row
  whose barcode, or whose non-null sku, is already stored is rejected. An accepted row
  gets its generated primary key and the column default \<open>isActive = true\<close>.
\<close>

definition violatesUnique :: "Product \<Rightarrow> Product list \<Rightarrow> bool" where
  "violatesUnique entity rows =
     list_ex (\<lambda>p. barcode p = barcode entity \<or> (sku entity \<noteq> None \<and> sku p = sku entity)) rows"

definition uniqueViolation :: thrown where
  "uniqueViolation =
     Error ''QueryFailedError'' ''duplicate key value violates unique constraint''"

definition save :: "Product \<Rightarrow> Product io" where
  "save entity =
     call (RepoSave (barcode entity))
       (\<lambda>w. if violatesUnique entity (products w) then (Inl uniqueViolation, w)
             else (let saved = entity\<lparr>productId := uuid (nextId w), isActive := True\<rparr>
                   in (Inr saved, w\<lparr>products := products w @ [saved], nextId := nextId w + 1\<rparr>)))"

text \<open>\<open>BaseRepository.create\<close>: any failure of the save is thrown again, wrapped.\<close>

definition repoCreate :: "Product \<Rightarrow> Product io" where
  "repoCreate data =
     tryCatch (save data)
       (\<lambda>error. throw (Error ''Error'' (''Error creating entity: '' @ errorString error)))"


section \<open>ProductService\<close>

record CreateProductDto =
  barcode :: string
  barcodeType :: BarcodeType
  name :: string
  description :: "string option"
  sku :: "string option"
  categoryId :: "string option"
  manufacturer :: "string option"
  priceUsd :: "int option"
  costUsd :: "int option"
  imageUrl :: "string option"
  supplierId :: "string option"

text \<open>\<^verbatim>\<open>x || null\<close> on an optional string: the empty string is falsy.\<close>

definition orNull :: "string option \<Rightarrow> string option" where
  "orNull v = (case v of None \<Rightarrow> None | Some s \<Rightarrow> if s = [] then None else Some s)"

text \<open>\<^verbatim>\<open>x || 0\<close> on an optional number.\<close>

definition orZero :: "int option \<Rightarrow> int" where
  "orZero v = (case v of None \<Rightarrow> 0 | Some n \<Rightarrow> n)"

text \<open>
  \<open>ProductService.createProduct\<close>. The duplicate check queries the repository with the
  barcode of the request as it came in; the entity is given the normalized barcode. The
  inventory object built after the save is never saved, so the product that is returned
  has none.
\<close>

definition createProduct ::
  "(string \<Rightarrow> DecodedBarcode) \<Rightarrow> CreateProductDto \<Rightarrow> string \<Rightarrow> Product io" where
  "createProduct decode dto userId =
     await (repoFindByBarcode (CreateProductDto.barcode dto))
       (\<lambda>existingProduct. case existingProduct of
            Some existing \<Rightarrow>
              throw (Error ''Error''
                (''Product with barcode '' @ CreateProductDto.barcode dto
                   @ '' already exists (ID: '' @ productId existing @ '')''))
          | None \<Rightarrow>
              await
                (case orNull (CreateProductDto.sku dto) of
                   None \<Rightarrow> resolve ()
                 | Some s \<Rightarrow>
                     await (repoFindBySku s)
                       (\<lambda>existingBySku. case existingBySku of
                            Some _ \<Rightarrow>
                              throw (Error ''Error''
                                (''Product with SKU '' @ s @ '' already exists''))
                          | None \<Rightarrow> resolve ()))
                (\<lambda>_. await
                   (if \<not> isValid (decode (CreateProductDto.barcode dto))
                        \<and> format (decode (CreateProductDto.barcode dto)) \<noteq> UNKNOWN
                    then consoleWarn
                      (''Warning: Barcode '' @ CreateProductDto.barcode dto
                         @ '' failed validation but was accepted'')
                    else resolve ())
                   (\<lambda>_. await
                      (repoCreate
                         \<lparr>productId = [],
                          Product.barcode = normalize_barcode (CreateProductDto.barcode dto),
                          Product.barcodeType = CreateProductDto.barcodeType dto,
                          Product.name = CreateProductDto.name dto,
                          Product.description = orNull (CreateProductDto.description dto),
                          Product.sku = orNull (CreateProductDto.sku dto),
                          Product.manufacturer = orNull (CreateProductDto.manufacturer dto),
                          Product.priceUsd = orZero (CreateProductDto.priceUsd dto),
                          Product.costUsd = orZero (CreateProductDto.costUsd dto),
                          Product.imageUrl = orNull (CreateProductDto.imageUrl dto),
                          isActive = True,
                          createdBy = userId,
                          inventory = None\<rparr>)
                      (\<lambda>savedProduct. await (cacheDeleteByPattern ''products:*'')
                         (\<lambda>_. await (cacheDeleteByPattern ''search:*'')
                            (\<lambda>_. resolve savedProduct))))))"

text \<open>\<open>ProductService.getProductByBarcode\<close>.\<close>

definition getProductByBarcode :: "string \<Rightarrow> Product option io" where
  "getProductByBarcode b =
     getOrSet (''product:barcode:'' @ normalize_barcode b)
       (repoFindByBarcode (normalize_barcode b))"


section \<open>Inventory\<close>

definition InvalidQuantity :: thrown where
  "InvalidQuantity = Error ''Error'' ''InvalidQuantity''"

text \<open>
  Modelled from the spec: \<open>Inventory.addStock\<close>, whose entity file is missing.
  Section 4.4: ``\<open>addStock(inventory, quantity) -> newOnHand\<close>: fails with
  \<open>InvalidQuantity\<close> if \<open>quantity \<le> 0\<close>''; otherwise the quantity is added to
  \<open>quantityOnHand\<close>. The specification names the failure and not its message; the
  message is the name.
\<close>

definition addStock :: "Inventory \<Rightarrow> int \<Rightarrow> thrown + Inventory" where
  "addStock stock quantity =
     (if quantity \<le> 0 then Inl InvalidQuantity
      else Inr (stock\<lparr>quantityOnHand := quantityOnHand stock + quantity\<rparr>))"


section \<open>ScannerService\<close>

record ScanDecodeRequest =
  barcode :: string
  deviceId :: "string option"
  location :: "string option"
  timestamp :: "nat option"

text \<open>
  The field \<open>product\<close> of a \<open>ScanDecodeResponse\<close> is declared \<^verbatim>\<open>Product | null\<close>,
  but \<open>decodeScan\<close> puts there what the cache returned under its key, unchecked: the
  field holds a cached value.
\<close>

record ScanDecodeResponse =
  success :: bool
  product :: "cval option"
  barcode :: DecodedBarcode
  cached :: bool
  message :: "string option"

record QuickAddRequest =
  barcode :: string
  quantity :: int
  location :: "string option"
  deviceId :: "string option"

record QuickAddResponse =
  success :: bool
  product :: "Product option"
  quantity :: int
  newStock :: int
  message :: string

text \<open>The object literal handed to \<open>logScan\<close>, whose parameter is untyped.\<close>

record ScanLogData =
  product :: "cval option"
  barcode :: string
  scanType :: string
  deviceId :: "string option"
  location :: "string option"
  quantity :: "int option"
  userId :: "string option"
  decodedData :: "DecodedBarcode option"

text \<open>
  \<open>ScannerService.logScan\<close>. The record it builds is not saved (the call to the
  repository is commented out); what remains are the two counters. A failure is logged
  on the console and swallowed.
\<close>

definition logScan :: "ScanLogData \<Rightarrow> unit io" where
  "logScan data =
     tryCatch
       (await (cacheIncrement ''metrics:total-scans'' 1)
          (\<lambda>_. await (cacheIncrement (''metrics:scans:'' @ scanType data) 1)
             (\<lambda>_. resolve ())))
       (\<lambda>error. consoleError ''Error logging scan:'' error)"

text \<open>
  The test \<^verbatim>\<open>if (cachedProduct)\<close>: an object is truthy, a number is truthy unless it
  is \<open>0\<close>, an absent entry is not.
\<close>

definition truthy :: "cval option \<Rightarrow> bool" where
  "truthy v = (case v of None \<Rightarrow> False | Some (CProduct p) \<Rightarrow> True | Some (CNum n) \<Rightarrow> n \<noteq> 0)"

text \<open>\<open>ScannerService.decodeScan\<close>: the body of its \<open>try\<close>, then the method.\<close>

definition decodeScanTry ::
  "(string \<Rightarrow> DecodedBarcode) \<Rightarrow> ScanDecodeRequest \<Rightarrow> ScanDecodeResponse io" where
  "decodeScanTry decode request =
     await (cacheGet (''scan:product:'' @ rawValue (decode (ScanDecodeRequest.barcode request))))
       (\<lambda>cachedProduct. await
          (if truthy cachedProduct
           then resolve (cachedProduct, True)
           else
             await (getProductByBarcode (rawValue (decode (ScanDecodeRequest.barcode request))))
               (\<lambda>found. case found of
                    None \<Rightarrow> resolve (None, False)
                  | Some p \<Rightarrow>
                      await
                        (cacheSet
                           (''scan:product:'' @ rawValue (decode (ScanDecodeRequest.barcode request)))
                           (CProduct p) (Some 1800))
                        (\<lambda>_. resolve (Some (CProduct p), False))))
          (\<lambda>(product, cached). await
             (logScan
                \<lparr>ScanLogData.product = product,
                 ScanLogData.barcode = ScanDecodeRequest.barcode request,
                 scanType = ''lookup'',
                 ScanLogData.deviceId = ScanDecodeRequest.deviceId request,
                 ScanLogData.location = ScanDecodeRequest.location request,
                 ScanLogData.quantity = None,
                 userId = None,
                 decodedData = Some (decode (ScanDecodeRequest.barcode request))\<rparr>)
             (\<lambda>_. resolve
                \<lparr>ScanDecodeResponse.success = truthy product,
                 ScanDecodeResponse.product = product,
                 ScanDecodeResponse.barcode = decode (ScanDecodeRequest.barcode request),
                 cached = cached,
                 ScanDecodeResponse.message =
                   Some (if truthy product then ''Product found''
                         else ''Barcode decoded but product not in database'')\<rparr>)))"

definition decodeScan ::
  "(string \<Rightarrow> DecodedBarcode) \<Rightarrow> ScanDecodeRequest \<Rightarrow> ScanDecodeResponse io" where
  "decodeScan decode request =
     tryCatch (decodeScanTry decode request)
       (\<lambda>error. resolve
          \<lparr>ScanDecodeResponse.success = False,
           ScanDecodeResponse.product = None,
           ScanDecodeResponse.barcode = decode (ScanDecodeRequest.barcode request),
           cached = False,
           ScanDecodeResponse.message = Some (''Error decoding scan: '' @ errorMessage error)\<rparr>)"

text \<open>
  \<open>ScannerService.quickAdd\<close>. \<open>addStock\<close> changes the inventory of the product object
  that the lookup returned; nothing writes it to the repository (the save is commented
  out), and the response carries the changed object.
\<close>

definition quickAddTry :: "QuickAddRequest \<Rightarrow> string \<Rightarrow> QuickAddResponse io" where
  "quickAddTry request user =
     await (getProductByBarcode (QuickAddRequest.barcode request))
       (\<lambda>found. case found of
            None \<Rightarrow>
              resolve
                \<lparr>QuickAddResponse.success = False,
                 QuickAddResponse.product = None,
                 QuickAddResponse.quantity = QuickAddRequest.quantity request,
                 newStock = 0,
                 QuickAddResponse.message =
                   ''Product with barcode '' @ QuickAddRequest.barcode request @ '' not found''\<rparr>
          | Some p \<Rightarrow>
              (case inventory p of
                 None \<Rightarrow>
                   resolve
                     \<lparr>QuickAddResponse.success = False,
                      QuickAddResponse.product = Some p,
                      QuickAddResponse.quantity = QuickAddRequest.quantity request,
                      newStock = 0,
                      QuickAddResponse.message = ''Inventory record not found for product''\<rparr>
               | Some stock \<Rightarrow>
                   (case addStock stock (QuickAddRequest.quantity request) of
                      Inl err \<Rightarrow>
                        resolve
                          \<lparr>QuickAddResponse.success = False,
                           QuickAddResponse.product = Some p,
                           QuickAddResponse.quantity = QuickAddRequest.quantity request,
                           newStock = quantityOnHand stock,
                           QuickAddResponse.message = ''Error adding stock: '' @ errorMessage err\<rparr>
                    | Inr stock' \<Rightarrow>
                        await
                          (logScan
                             \<lparr>ScanLogData.product = Some (CProduct (p\<lparr>inventory := Some stock'\<rparr>)),
                              ScanLogData.barcode = QuickAddRequest.barcode request,
                              scanType = ''add'',
                              ScanLogData.deviceId = QuickAddRequest.deviceId request,
                              ScanLogData.location = QuickAddRequest.location request,
                              ScanLogData.quantity = Some (QuickAddRequest.quantity request),
                              userId = Some user,
                              decodedData = None\<rparr>)
                          (\<lambda>_. await (cacheDelete (''product:'' @ productId p))
                             (\<lambda>_. await (cacheDelete (''product:barcode:'' @ Product.barcode p))
                                (\<lambda>_. resolve
                                   \<lparr>QuickAddResponse.success = True,
                                    QuickAddResponse.product = Some (p\<lparr>inventory := Some stock'\<rparr>),
                                    QuickAddResponse.quantity = QuickAddRequest.quantity request,
                                    newStock = quantityOnHand stock',
                                    QuickAddResponse.message =
                                      ''Successfully added ''
                                        @ showInt (QuickAddRequest.quantity request)
                                        @ '' units of '' @ Product.name p\<rparr>))))))"

definition quickAdd :: "QuickAddRequest \<Rightarrow> string \<Rightarrow> QuickAddResponse io" where
  "quickAdd request user =
     tryCatch (quickAddTry request user)
       (\<lambda>error. resolve
          \<lparr>QuickAddResponse.success = False,
           QuickAddResponse.product = None,
           QuickAddResponse.quantity = QuickAddRequest.quantity request,
           newStock = 0,
           QuickAddResponse.message = ''Error in quick add: '' @ errorMessage error\<rparr>)"

text \<open>
  \<open>ScannerService.receiveInventory\<close>. A failure of \<open>addStock\<close> is not caught on the
  spot here: it reaches the outer \<open>catch\<close>. No cache entry is deleted.
\<close>

definition receiveInventoryTry ::
  "string \<Rightarrow> int \<Rightarrow> string option \<Rightarrow> string option \<Rightarrow> QuickAddResponse io" where
  "receiveInventoryTry b qty supplier user =
     await (getProductByBarcode b)
       (\<lambda>found. case found of
            None \<Rightarrow>
              resolve
                \<lparr>QuickAddResponse.success = False,
                 QuickAddResponse.product = None,
                 QuickAddResponse.quantity = qty,
                 newStock = 0,
                 QuickAddResponse.message = ''Product not found''\<rparr>
          | Some p \<Rightarrow>
              (case inventory p of
                 None \<Rightarrow>
                   resolve
                     \<lparr>QuickAddResponse.success = False,
                      QuickAddResponse.product = Some p,
                      QuickAddResponse.quantity = qty,
                      newStock = 0,
                      QuickAddResponse.message = ''Inventory record missing''\<rparr>
               | Some stock \<Rightarrow>
                   (case addStock stock qty of
                      Inl err \<Rightarrow> throw err
                    | Inr stock' \<Rightarrow>
                        await
                          (logScan
                             \<lparr>ScanLogData.product = Some (CProduct (p\<lparr>inventory := Some stock'\<rparr>)),
                              ScanLogData.barcode = b,
                              scanType = ''receive'',
                              ScanLogData.deviceId = None,
                              ScanLogData.location = None,
                              ScanLogData.quantity = Some qty,
                              userId = user,
                              decodedData = None\<rparr>)
                          (\<lambda>_. resolve
                             \<lparr>QuickAddResponse.success = True,
                              QuickAddResponse.product = Some (p\<lparr>inventory := Some stock'\<rparr>),
                              QuickAddResponse.quantity = qty,
                              newStock = quantityOnHand stock',
                              QuickAddResponse.message =
                                ''Received '' @ showInt qty @ '' units''\<rparr>))))"

definition receiveInventory ::
  "string \<Rightarrow> int \<Rightarrow> string option \<Rightarrow> string option \<Rightarrow> QuickAddResponse io" where
  "receiveInventory b qty supplier user =
     tryCatch (receiveInventoryTry b qty supplier user)
       (\<lambda>error. resolve
          \<lparr>QuickAddResponse.success = False,
           QuickAddResponse.product = None,
           QuickAddResponse.quantity = qty,
           newStock = 0,
           QuickAddResponse.message = errorMessage error\<rparr>)"

text \<open>
  \<open>ScannerService.batchScan\<close>. An item is what \<open>decodeScan\<close>, \<open>quickAdd\<close> or
  \<open>receiveInventory\<close> returned, or \<open>undefined\<close> when no branch assigned
  \<open>itemResult\<close>, or the object literal pushed by the \<open>catch\<close>. The optional
  \<open>quantity\<close> is truthy when it is given and is not \<open>0\<close>.
\<close>

datatype Operation = OpLookup | OpAdd | OpReceive | OpCount

datatype BatchItem =
    ScanItem ScanDecodeResponse
  | AddItem QuickAddResponse
  | UndefinedItem
  | ErrorItem string string

record BatchResults =
  processed :: nat
  succeeded :: nat
  failed :: nat
  items :: "BatchItem list"

text \<open>
  Reading \<open>itemResult.success\<close>: a \<open>TypeError\<close> on \<open>undefined\<close>, with the
  message that V8 gives it.
\<close>

definition undefinedSuccess :: thrown where
  "undefinedSuccess =
     Error ''TypeError'' ''Cannot read properties of undefined (reading 'success')''"

fun itemSuccess :: "BatchItem \<Rightarrow> thrown + bool" where
  "itemSuccess (ScanItem r) = Inr (ScanDecodeResponse.success r)"
| "itemSuccess (AddItem r) = Inr (QuickAddResponse.success r)"
| "itemSuccess UndefinedItem = Inl undefinedSuccess"
| "itemSuccess (ErrorItem b e) = Inr False"

definition selectItem ::
  "(string \<Rightarrow> DecodedBarcode) \<Rightarrow> Operation \<Rightarrow> int option \<Rightarrow> string \<Rightarrow> BatchItem io" where
  "selectItem decode operation qty b =
     (if operation = OpLookup
      then await
        (decodeScan decode
           \<lparr>ScanDecodeRequest.barcode = b, ScanDecodeRequest.deviceId = None,
            ScanDecodeRequest.location = None, timestamp = None\<rparr>)
        (\<lambda>r. resolve (ScanItem r))
      else (case qty of
              None \<Rightarrow> resolve UndefinedItem
            | Some q \<Rightarrow>
                if operation = OpAdd \<and> q \<noteq> 0
                then await
                  (quickAdd
                     \<lparr>QuickAddRequest.barcode = b, QuickAddRequest.quantity = q,
                      QuickAddRequest.location = None, QuickAddRequest.deviceId = None\<rparr>
                     ''batch-user'')
                  (\<lambda>r. resolve (AddItem r))
                else if operation = OpReceive \<and> q \<noteq> 0
                then await (receiveInventory b q None None) (\<lambda>r. resolve (AddItem r))
                else resolve UndefinedItem))"

text \<open>The \<open>catch\<close> of the loop body.\<close>

definition catchItem :: "string \<Rightarrow> thrown \<Rightarrow> BatchResults \<Rightarrow> BatchResults" where
  "catchItem b error results =
     results\<lparr>failed := failed results + 1,
             items := items results @ [ErrorItem b (errorMessage error)]\<rparr>"

text \<open>
  One turn of the loop. What the \<open>try\<close> did to \<open>results\<close> before the failure stays
  done when the \<open>catch\<close> runs.
\<close>

definition batchStep ::
  "(string \<Rightarrow> DecodedBarcode) \<Rightarrow> Operation \<Rightarrow> int option \<Rightarrow> string
     \<Rightarrow> BatchResults \<Rightarrow> world \<Rightarrow> BatchResults \<times> world" where
  "batchStep decode operation qty b results w =
     (case selectItem decode operation qty b w of
        (Inl error, w') \<Rightarrow> (catchItem b error results, w')
      | (Inr itemResult, w') \<Rightarrow>
          (case itemSuccess itemResult of
             Inl error \<Rightarrow>
               (catchItem b error
                  (results\<lparr>items := items results @ [itemResult],
                           processed := processed results + 1\<rparr>), w')
           | Inr ok \<Rightarrow>
               (if ok
                then (results\<lparr>items := items results @ [itemResult],
                              processed := processed results + 1,
                              succeeded := succeeded results + 1\<rparr>, w')
                else (results\<lparr>items := items results @ [itemResult],
                              processed := processed results + 1,
                              failed := failed results + 1\<rparr>, w'))))"

fun batchLoop ::
  "(string \<Rightarrow> DecodedBarcode) \<Rightarrow> Operation \<Rightarrow> int option \<Rightarrow> string list
     \<Rightarrow> BatchResults \<Rightarrow> world \<Rightarrow> BatchResults \<times> world" where
  "batchLoop decode operation qty [] results w = (results, w)"
| "batchLoop decode operation qty (b # bs) results w =
     (case batchStep decode operation qty b results w of
        (results', w') \<Rightarrow> batchLoop decode operation qty bs results' w')"

definition batchScan ::
  "(string \<Rightarrow> DecodedBarcode) \<Rightarrow> string list \<Rightarrow> Operation \<Rightarrow> int option \<Rightarrow> BatchResults io" where
  "batchScan decode barcodes operation qty w =
     (case batchLoop decode operation qty barcodes
             \<lparr>processed = 0, succeeded = 0, failed = 0, items = []\<rparr> w of
        (results, w') \<Rightarrow> (Inr results, w'))"


section \<open>Readings of the world\<close>

text \<open>The value that the cache holds under a key, if it holds one.\<close>

definition cachedValue :: "world \<Rightarrow> string \<Rightarrow> cval option" where
  "cachedValue w key = map_option fst (map_of (cache w) key)"

text \<open>The product that the cache holds under a key, if it holds one.\<close>

definition cachedProduct :: "world \<Rightarrow> string \<Rightarrow> Product option" where
  "cachedProduct w key =
     (case map_of (cache w) key of Some (CProduct p, ttl) \<Rightarrow> Some p | _ \<Rightarrow> None)"



section \<open>Sample worlds\<close>

text \<open>
  Concrete inputs on which the theorems below are instantiated: a decoder that keeps the
  raw value, a shop whose \<open>products\<close> table holds one product with ten units on
  hand and whose cache is empty, requests against it, and fault schedules.
\<close>

definition decodeRaw :: "string \<Rightarrow> DecodedBarcode" where
  "decodeRaw raw =
     \<lparr>rawValue = raw, normalizedValue = normalize_barcode raw, format = UNKNOWN,
      isValid = False, confidence = 0\<rparr>"

definition widget :: Product where
  "widget =
     \<lparr>productId = ''p1'', Product.barcode = ''ABC1'',
      Product.barcodeType = BarcodeType.CODE128, Product.name = ''Widget'',
      Product.description = None, Product.sku = None, Product.manufacturer = None,
      Product.priceUsd = 0, Product.costUsd = 0, Product.imageUrl = None,
      isActive = True, createdBy = ''u0'',
      inventory = Some \<lparr>quantityOnHand = 10, quantityReserved = 0,
                         reorderLevel = 10, reorderQuantity = 50\<rparr>\<rparr>"


definition shop :: "(nat \<Rightarrow> thrown option) \<Rightarrow> world" where
  "shop f = \<lparr>cache = [], products = [widget], nextId = 2, trace = [], faults = f\<rparr>"

definition addFive :: QuickAddRequest where
  "addFive =
     \<lparr>QuickAddRequest.barcode = ''abc-1'', QuickAddRequest.quantity = 5,
      QuickAddRequest.location = None, QuickAddRequest.deviceId = None\<rparr>"

definition addThree :: QuickAddRequest where
  "addThree =
     \<lparr>QuickAddRequest.barcode = ''abc-1'', QuickAddRequest.quantity = 3,
      QuickAddRequest.location = None, QuickAddRequest.deviceId = None\<rparr>"

definition lookupAbc :: ScanDecodeRequest where
  "lookupAbc =
     \<lparr>ScanDecodeRequest.barcode = ''abc-1'', ScanDecodeRequest.deviceId = None,
      ScanDecodeRequest.location = None, timestamp = None\<rparr>"



definition removeOne :: QuickAddRequest where
  "removeOne =
     \<lparr>QuickAddRequest.barcode = ''abc-1'', QuickAddRequest.quantity = - 1,
      QuickAddRequest.location = None, QuickAddRequest.deviceId = None\<rparr>"

definition tenOnHand :: Inventory where
  "tenOnHand = \<lparr>quantityOnHand = 10, quantityReserved = 0, reorderLevel = 10, reorderQuantity = 50\<rparr>"

text \<open>
  A shop whose cache still holds, under the raw key of an earlier scan, a copy of the
  product that differs from the stored row; an empty shop; a request to create a product.
\<close>

definition staleWidget :: Product where
  "staleWidget = widget\<lparr>Product.name := ''Old widget''\<rparr>"

definition staleShop :: world where
  "staleShop =
     \<lparr>cache = [(''scan:product:abc-1'', CProduct staleWidget, Some 1800)],
      products = [widget], nextId = 2, trace = [], faults = (\<lambda>_. None)\<rparr>"

definition emptyShop :: world where
  "emptyShop = \<lparr>cache = [], products = [], nextId = 1, trace = [], faults = (\<lambda>_. None)\<rparr>"

definition newProduct :: "string \<Rightarrow> CreateProductDto" where
  "newProduct b =
     \<lparr>CreateProductDto.barcode = b, CreateProductDto.barcodeType = BarcodeType.CODE128,
      CreateProductDto.name = ''Widget'', CreateProductDto.description = None,
      CreateProductDto.sku = None, categoryId = None, CreateProductDto.manufacturer = None,
      CreateProductDto.priceUsd = None, CreateProductDto.costUsd = None,
      CreateProductDto.imageUrl = None, supplierId = None\<rparr>"


section \<open>Properties of the barcode codec\<close>

lemma toUpper_digit: "isDigit c \<Longrightarrow> toUpper c = c"
  by (simp add: toUpper_def isLower_def isDigit_def)

lemma of_char_toUpper:
  assumes "isLower c"
  shows "(of_char (toUpper c) :: nat) = of_char c - 32"
proof -
  have "(of_char c :: nat) \<le> 122"
    using assms by (simp add: isLower_def)
  then have "(of_char c :: nat) - 32 < 256"
    by arith
  then have "((of_char c :: nat) - 32) mod 256 = of_char c - 32"
    by simp
  then show ?thesis
    using assms by (simp add: toUpper_def)
qed

lemma toUpper_not_lower: "\<not> isLower (toUpper c)"
proof (cases "isLower c")
  case True
  then have "(of_char c :: nat) \<le> 122"
    by (simp add: isLower_def)
  then have "(of_char (toUpper c) :: nat) < 97"
    using of_char_toUpper [OF True] by arith
  then show ?thesis by (simp add: isLower_def)
next
  case False
  then show ?thesis by (simp add: toUpper_def)
qed

lemma toUpper_idem: "toUpper (toUpper c) = toUpper c"
  using toUpper_not_lower [of c] by (simp add: toUpper_def [of "toUpper c"])

lemma isAlnum_toUpper: "isAlnum c \<Longrightarrow> isAlnum (toUpper c)"
proof (cases "isLower c")
  case True
  then have "97 \<le> (of_char c :: nat) \<and> (of_char c :: nat) \<le> 122"
    by (simp add: isLower_def)
  then have "65 \<le> (of_char (toUpper c) :: nat) \<and> (of_char (toUpper c) :: nat) \<le> 90"
    using of_char_toUpper [OF True] by arith
  then show ?thesis by (simp add: isAlnum_def isUpper_def)
next
  case False
  then show "isAlnum c \<Longrightarrow> isAlnum (toUpper c)" by (simp add: toUpper_def)
qed

lemma filter_alnum_upper:
  "filter isAlnum (map toUpper (filter isAlnum s)) = map toUpper (filter isAlnum s)"
  by (induction s) (simp_all add: isAlnum_toUpper)

lemma map_toUpper_upper:
  "map toUpper (map toUpper s) = map toUpper s"
  by (simp add: toUpper_idem)

lemma digits_alnum: "list_all isDigit s \<Longrightarrow> filter isAlnum s = s"
  by (induction s) (simp_all add: isAlnum_def)

lemma digits_upper: "list_all isDigit s \<Longrightarrow> map toUpper s = s"
  by (induction s) (simp_all add: toUpper_digit)

lemma isDigit_zero: "isDigit (CHR ''0'')"
  by (simp add: isDigit_def)

lemma leftPad_idem: "leftPad (leftPad s) = leftPad s"
  by (simp add: leftPad_def isNumeric_def list_all_iff isDigit_zero)

lemma leftPad_numeric_fixed:
  "isNumeric s \<Longrightarrow> filter isAlnum (leftPad s) = leftPad s \<and> map toUpper (leftPad s) = leftPad s"
  by (simp add: leftPad_def isNumeric_def digits_alnum digits_upper
      toUpper_digit isDigit_zero isAlnum_def)

lemma leftPad_other: "\<not> (isNumeric s \<and> length s < canonicalLength) \<Longrightarrow> leftPad s = s"
  by (simp add: leftPad_def)

text \<open>
  C8. Barcode normalization is idempotent: for every input string \<open>x\<close>,
  \<open>normalize_barcode (normalize_barcode x) = normalize_barcode x\<close>.
\<close>

theorem normalize_idempotent: "normalize_barcode (normalize_barcode x) = normalize_barcode x"
proof -
  let ?s = "map toUpper (filter isAlnum x)"
  have fixed: "filter isAlnum (leftPad ?s) = leftPad ?s \<and> map toUpper (leftPad ?s) = leftPad ?s"
  proof (cases "isNumeric ?s")
    case True
    then show ?thesis by (rule leftPad_numeric_fixed)
  next
    case False
    then have "leftPad ?s = ?s" by (simp add: leftPad_other)
    then show ?thesis
      using filter_alnum_upper [of x] map_toUpper_upper [of "filter isAlnum x"] by simp
  qed
  have "normalize_barcode (normalize_barcode x) = leftPad (map toUpper (filter isAlnum (leftPad ?s)))"
    by (simp add: normalize_barcode_def)
  also have "\<dots> = leftPad (leftPad ?s)" using fixed by simp
  also have "\<dots> = leftPad ?s" by (rule leftPad_idem)
  finally show ?thesis by (simp add: normalize_barcode_def)
qed


section \<open>Effects: general facts\<close>


lemma tryCatch_resolve:
  "\<exists>x. fst (tryCatch m (\<lambda>e. resolve (h e)) w) = Inr x"
  by (simp add: tryCatch_def resolve_def split: prod.splits sum.splits)


lemma tryCatch_passed:
  "fst (m w) = Inr x \<Longrightarrow> tryCatch m h w = m w"
  by (cases "m w") (simp add: tryCatch_def)

lemma logScan_returns: "fst (logScan d w) = Inr ()"
  by (simp add: logScan_def tryCatch_def consoleError_def split: prod.splits sum.splits)

lemma decodeScan_returns: "\<exists>r. fst (decodeScan decode request w) = Inr r"
  unfolding decodeScan_def by (rule tryCatch_resolve)

lemma quickAdd_returns: "\<exists>r. fst (quickAdd request user w) = Inr r"
  unfolding quickAdd_def by (rule tryCatch_resolve)

lemma receiveInventory_returns: "\<exists>r. fst (receiveInventory b qty supplier user w) = Inr r"
  unfolding receiveInventory_def by (rule tryCatch_resolve)


lemma await_returns:
  "fst (m w) = Inr x \<Longrightarrow> await m f w = f x (snd (m w))"
  by (cases "m w") (simp add: await_def)


lemma selectItem_returns: "\<exists>r. fst (selectItem decode operation qty b w) = Inr r"
proof -
  obtain r1 where r1: "fst (decodeScan decode
           \<lparr>ScanDecodeRequest.barcode = b, ScanDecodeRequest.deviceId = None,
            ScanDecodeRequest.location = None, timestamp = None\<rparr> w) = Inr r1"
    using decodeScan_returns by blast
  have lookup: "operation = OpLookup \<Longrightarrow> ?thesis"
    using r1 by (simp add: selectItem_def await_returns resolve_def)
  have none: "operation \<noteq> OpLookup \<Longrightarrow> qty = None \<Longrightarrow> ?thesis"
    by (simp add: selectItem_def resolve_def)
  have some: "operation \<noteq> OpLookup \<Longrightarrow> qty = Some q \<Longrightarrow> ?thesis" for q
  proof -
    assume op: "operation \<noteq> OpLookup" and q: "qty = Some q"
    obtain r2 where r2: "fst (quickAdd
                     \<lparr>QuickAddRequest.barcode = b, QuickAddRequest.quantity = q,
                      QuickAddRequest.location = None, QuickAddRequest.deviceId = None\<rparr>
                     ''batch-user'' w) = Inr r2"
      using quickAdd_returns by blast
    obtain r3 where r3: "fst (receiveInventory b q None None w) = Inr r3"
      using receiveInventory_returns by blast
    show ?thesis
      using op q r2 r3 by (simp add: selectItem_def await_returns resolve_def)
  qed
  show ?thesis
    using lookup none some by (cases "operation = OpLookup"; cases qty) auto
qed


section \<open>Batch scans\<close>


lemma batchStep_tally:
  "processed (fst (batchStep decode operation qty b r w)) = processed r + 1 \<and>
   succeeded (fst (batchStep decode operation qty b r w))
     + failed (fst (batchStep decode operation qty b r w)) = succeeded r + failed r + 1"
proof -
  obtain x where x: "fst (selectItem decode operation qty b w) = Inr x"
    using selectItem_returns by blast
  then obtain w' where "selectItem decode operation qty b w = (Inr x, w')"
    by (cases "selectItem decode operation qty b w") simp
  then show ?thesis
    by (simp add: batchStep_def catchItem_def split: sum.splits)
qed

lemma batchStep_grows:
  "\<exists>ys. items (fst (batchStep decode operation qty b r w)) = items r @ ys"
  by (simp add: batchStep_def catchItem_def split: prod.splits sum.splits)

lemma batchStep_monotone:
  "succeeded r \<le> succeeded (fst (batchStep decode operation qty b r w)) \<and>
   failed r \<le> failed (fst (batchStep decode operation qty b r w))"
  by (simp add: batchStep_def catchItem_def split: prod.splits sum.splits)

lemma batchLoop_tally:
  "processed (fst (batchLoop decode operation qty bs r w)) = processed r + length bs \<and>
   succeeded (fst (batchLoop decode operation qty bs r w))
     + failed (fst (batchLoop decode operation qty bs r w)) = succeeded r + failed r + length bs"
proof (induction bs arbitrary: r w)
  case Nil
  show ?case by simp
next
  case (Cons b bs)
  obtain r' w' where step: "batchStep decode operation qty b r w = (r', w')"
    by (cases "batchStep decode operation qty b r w") simp
  have "processed r' = processed r + 1 \<and> succeeded r' + failed r' = succeeded r + failed r + 1"
    using batchStep_tally [where decode = decode and operation = operation and qty = qty and b = b and r = r and w = w] step by simp
  then show ?case
    using Cons.IH [of r' w'] step by simp
qed

lemma batchLoop_grows:
  "\<exists>ys. items (fst (batchLoop decode operation qty bs r w)) = items r @ ys"
proof (induction bs arbitrary: r w)
  case Nil
  show ?case by simp
next
  case (Cons b bs)
  obtain r' w' where step: "batchStep decode operation qty b r w = (r', w')"
    by (cases "batchStep decode operation qty b r w") simp
  obtain ys where ys: "items r' = items r @ ys"
    using batchStep_grows [where decode = decode and operation = operation and qty = qty and b = b and r = r and w = w] step by auto
  obtain zs where "items (fst (batchLoop decode operation qty bs r' w')) = items r' @ zs"
    using Cons.IH [of r' w'] by blast
  then show ?case
    using step ys by simp
qed

lemma batchLoop_monotone:
  "succeeded r \<le> succeeded (fst (batchLoop decode operation qty bs r w)) \<and>
   failed r \<le> failed (fst (batchLoop decode operation qty bs r w))"
proof (induction bs arbitrary: r w)
  case Nil
  show ?case by simp
next
  case (Cons b bs)
  obtain r' w' where step: "batchStep decode operation qty b r w = (r', w')"
    by (cases "batchStep decode operation qty b r w") simp
  have "succeeded r \<le> succeeded r' \<and> failed r \<le> failed r'"
    using batchStep_monotone [where decode = decode and operation = operation and qty = qty and b = b and r = r and w = w] step by simp
  then show ?case
    using Cons.IH [of r' w'] step by (simp; linarith)
qed

lemma batchLoop_append:
  "batchLoop decode operation qty (xs @ ys) r w =
     batchLoop decode operation qty ys
       (fst (batchLoop decode operation qty xs r w))
       (snd (batchLoop decode operation qty xs r w))"
  by (induction xs arbitrary: r w) (simp_all split: prod.splits)

lemma selectItem_unsupported:
  "operation \<noteq> OpLookup \<Longrightarrow> operation = OpCount \<or> qty = None \<or> qty = Some 0 \<Longrightarrow>
     selectItem decode operation qty b w = (Inr UndefinedItem, w)"
  by (auto simp: selectItem_def resolve_def split: option.splits)

lemma batchStep_unsupported:
  "operation \<noteq> OpLookup \<Longrightarrow> operation = OpCount \<or> qty = None \<or> qty = Some 0 \<Longrightarrow>
     batchStep decode operation qty b r w =
       (r\<lparr>items := items r @ [UndefinedItem, ErrorItem b (errorMessage undefinedSuccess)],
          processed := processed r + 1, failed := failed r + 1\<rparr>, w)"
  by (simp add: batchStep_def selectItem_unsupported catchItem_def)

lemma batchLoop_unsupported:
  "operation \<noteq> OpLookup \<Longrightarrow> operation = OpCount \<or> qty = None \<or> qty = Some 0 \<Longrightarrow>
     batchLoop decode operation qty bs r w =
       (r\<lparr>items := items r
              @ concat (map (\<lambda>b. [UndefinedItem, ErrorItem b (errorMessage undefinedSuccess)]) bs),
          processed := processed r + length bs, failed := failed r + length bs\<rparr>, w)"
proof (induction bs arbitrary: r)
  case Nil
  show ?case by simp
next
  case (Cons b bs)
  show ?case
    using Cons.prems by (simp add: batchStep_unsupported Cons.IH [OF Cons.prems])
qed

lemma batchScan_tallies:
  "\<exists>r. fst (batchScan decode barcodes operation qty w) = Inr r
      \<and> processed r = length barcodes
      \<and> succeeded r + failed r = length barcodes
      \<and> (\<forall>n. \<exists>r1 ys. fst (batchScan decode (take n barcodes) operation qty w) = Inr r1
              \<and> items r = items r1 @ ys
              \<and> succeeded r1 \<le> succeeded r \<and> failed r1 \<le> failed r)
      \<and> (operation \<noteq> OpLookup \<and> (operation = OpCount \<or> qty = None \<or> qty = Some 0) \<longrightarrow>
            r = \<lparr>processed = length barcodes, succeeded = 0, failed = length barcodes,
                 items = concat (map (\<lambda>b. [UndefinedItem,
                            ErrorItem b ''Cannot read properties of undefined (reading 'success')''])
                          barcodes)\<rparr>
            \<and> snd (batchScan decode barcodes operation qty w) = w)"
proof -
  let ?init = "\<lparr>processed = 0, succeeded = 0, failed = 0, items = []\<rparr>"
  let ?loop = "\<lambda>bs. batchLoop decode operation qty bs ?init w"
  let ?res = "fst (?loop barcodes)"
  have res: "fst (batchScan decode bs operation qty w) = Inr (fst (?loop bs))" for bs
    by (simp add: batchScan_def split: prod.splits)
  have world: "snd (batchScan decode bs operation qty w) = snd (?loop bs)" for bs
    by (simp add: batchScan_def split: prod.splits)
  have tally: "processed ?res = length barcodes \<and> succeeded ?res + failed ?res = length barcodes"
    using batchLoop_tally [where decode = decode and operation = operation and qty = qty and bs = barcodes and r = ?init and w = w] by simp
  have kept: "\<exists>r1 ys. fst (batchScan decode (take n barcodes) operation qty w) = Inr r1
              \<and> items ?res = items r1 @ ys
              \<and> succeeded r1 \<le> succeeded ?res \<and> failed r1 \<le> failed ?res" for n
  proof -
    let ?part = "fst (?loop (take n barcodes))"
    let ?mid = "snd (?loop (take n barcodes))"
    have split: "?loop barcodes = batchLoop decode operation qty (drop n barcodes) ?part ?mid"
      using batchLoop_append [where decode = decode and operation = operation and qty = qty and xs = "take n barcodes" and ys = "drop n barcodes" and r = ?init and w = w]
      by simp
    obtain ys where "items ?res = items ?part @ ys"
      using batchLoop_grows [where decode = decode and operation = operation and qty = qty and bs = "drop n barcodes" and r = ?part and w = ?mid] split by auto
    moreover have "succeeded ?part \<le> succeeded ?res \<and> failed ?part \<le> failed ?res"
      using batchLoop_monotone [where decode = decode and operation = operation and qty = qty and bs = "drop n barcodes" and r = ?part and w = ?mid] split by simp
    ultimately show ?thesis
      using res [of "take n barcodes"] by blast
  qed
  have unsupported:
    "operation \<noteq> OpLookup \<and> (operation = OpCount \<or> qty = None \<or> qty = Some 0) \<longrightarrow>
       ?res = \<lparr>processed = length barcodes, succeeded = 0, failed = length barcodes,
             items = concat (map (\<lambda>b. [UndefinedItem,
                        ErrorItem b ''Cannot read properties of undefined (reading 'success')''])
                      barcodes)\<rparr>
       \<and> snd (batchScan decode barcodes operation qty w) = w"
  proof
    assume a: "operation \<noteq> OpLookup \<and> (operation = OpCount \<or> qty = None \<or> qty = Some 0)"
    then have "?loop barcodes =
       (?init\<lparr>items := items ?init
              @ concat (map (\<lambda>b. [UndefinedItem, ErrorItem b (errorMessage undefinedSuccess)]) barcodes),
          processed := processed ?init + length barcodes, failed := failed ?init + length barcodes\<rparr>, w)"
      using batchLoop_unsupported [where decode = decode and operation = operation and qty = qty and bs = barcodes and r = ?init and w = w] by blast
    then show "?res = \<lparr>processed = length barcodes, succeeded = 0, failed = length barcodes,
             items = concat (map (\<lambda>b. [UndefinedItem,
                        ErrorItem b ''Cannot read properties of undefined (reading 'success')''])
                      barcodes)\<rparr>
       \<and> snd (batchScan decode barcodes operation qty w) = w"
      using world [of barcodes] by (simp add: undefinedSuccess_def)
  qed
  show ?thesis
    using res [of barcodes] tally kept unsupported by blast
qed

lemma batchStep_ran:
  assumes "selectItem decode operation qty b w = (Inr item, w')" and "itemSuccess item = Inr ok"
  shows "batchStep decode operation qty b r w =
      (r\<lparr>items := items r @ [item], processed := processed r + 1,
         succeeded := succeeded r + (if ok then 1 else 0),
         failed := failed r + (if ok then 0 else 1)\<rparr>, w')"
  using assms by (simp add: batchStep_def)

lemma selectItem_lookup:
  assumes "fst (decodeScan decode
           \<lparr>ScanDecodeRequest.barcode = b, ScanDecodeRequest.deviceId = None,
            ScanDecodeRequest.location = None, timestamp = None\<rparr> w) = Inr resp"
  shows "selectItem decode OpLookup qty b w =
      (Inr (ScanItem resp),
       snd (decodeScan decode
           \<lparr>ScanDecodeRequest.barcode = b, ScanDecodeRequest.deviceId = None,
            ScanDecodeRequest.location = None, timestamp = None\<rparr> w))"
  using assms by (simp add: selectItem_def await_returns resolve_def)

lemma selectItem_add:
  assumes "q \<noteq> 0"
    and "fst (quickAdd
           \<lparr>QuickAddRequest.barcode = b, QuickAddRequest.quantity = q,
            QuickAddRequest.location = None, QuickAddRequest.deviceId = None\<rparr>
           ''batch-user'' w) = Inr resp"
  shows "selectItem decode OpAdd (Some q) b w =
      (Inr (AddItem resp),
       snd (quickAdd
           \<lparr>QuickAddRequest.barcode = b, QuickAddRequest.quantity = q,
            QuickAddRequest.location = None, QuickAddRequest.deviceId = None\<rparr>
           ''batch-user'' w))"
  using assms by (simp add: selectItem_def await_returns resolve_def)

lemma selectItem_receive:
  assumes "q \<noteq> 0" and "fst (receiveInventory b q None None w) = Inr resp"
  shows "selectItem decode OpReceive (Some q) b w =
      (Inr (AddItem resp), snd (receiveInventory b q None None w))"
  using assms by (simp add: selectItem_def await_returns resolve_def)

lemma batchScan_next:
  assumes "n < length barcodes"
  shows "batchScan decode (take (Suc n) barcodes) operation qty w =
      (case batchStep decode operation qty (barcodes ! n)
              (fst (batchLoop decode operation qty (take n barcodes)
                      \<lparr>processed = 0, succeeded = 0, failed = 0, items = []\<rparr> w))
              (snd (batchLoop decode operation qty (take n barcodes)
                      \<lparr>processed = 0, succeeded = 0, failed = 0, items = []\<rparr> w)) of
         (results, w') \<Rightarrow> (Inr results, w'))"
  using assms
  by (simp add: batchScan_def take_Suc_conv_app_nth batchLoop_append split: prod.splits)

lemma batchScan_parts:
  "fst (batchScan decode bs operation qty w) =
     Inr (fst (batchLoop decode operation qty bs
                 \<lparr>processed = 0, succeeded = 0, failed = 0, items = []\<rparr> w))"
  "snd (batchScan decode bs operation qty w) =
     snd (batchLoop decode operation qty bs
            \<lparr>processed = 0, succeeded = 0, failed = 0, items = []\<rparr> w)"
  by (simp_all add: batchScan_def split: prod.splits)

lemma batchScan_runs_each:
  assumes "n < length barcodes"
  shows "\<exists>r1 r2.
      fst (batchScan decode (take n barcodes) operation qty w) = Inr r1
      \<and> fst (batchScan decode (take (Suc n) barcodes) operation qty w) = Inr r2
      \<and> processed r2 = processed r1 + 1
      \<and> (operation = OpLookup \<longrightarrow>
           (\<exists>resp.
              fst (decodeScan decode
                     \<lparr>ScanDecodeRequest.barcode = barcodes ! n, ScanDecodeRequest.deviceId = None,
                      ScanDecodeRequest.location = None, timestamp = None\<rparr>
                     (snd (batchScan decode (take n barcodes) operation qty w))) = Inr resp
              \<and> items r2 = items r1 @ [ScanItem resp]
              \<and> succeeded r2 = succeeded r1 + (if ScanDecodeResponse.success resp then 1 else 0)
              \<and> failed r2 = failed r1 + (if ScanDecodeResponse.success resp then 0 else 1)
              \<and> snd (batchScan decode (take (Suc n) barcodes) operation qty w) =
                  snd (decodeScan decode
                     \<lparr>ScanDecodeRequest.barcode = barcodes ! n, ScanDecodeRequest.deviceId = None,
                      ScanDecodeRequest.location = None, timestamp = None\<rparr>
                     (snd (batchScan decode (take n barcodes) operation qty w)))))
      \<and> (\<forall>q. operation = OpAdd \<and> qty = Some q \<and> q \<noteq> 0 \<longrightarrow>
           (\<exists>resp.
              fst (quickAdd
                     \<lparr>QuickAddRequest.barcode = barcodes ! n, QuickAddRequest.quantity = q,
                      QuickAddRequest.location = None, QuickAddRequest.deviceId = None\<rparr>
                     ''batch-user''
                     (snd (batchScan decode (take n barcodes) operation qty w))) = Inr resp
              \<and> items r2 = items r1 @ [AddItem resp]
              \<and> succeeded r2 = succeeded r1 + (if QuickAddResponse.success resp then 1 else 0)
              \<and> failed r2 = failed r1 + (if QuickAddResponse.success resp then 0 else 1)
              \<and> snd (batchScan decode (take (Suc n) barcodes) operation qty w) =
                  snd (quickAdd
                     \<lparr>QuickAddRequest.barcode = barcodes ! n, QuickAddRequest.quantity = q,
                      QuickAddRequest.location = None, QuickAddRequest.deviceId = None\<rparr>
                     ''batch-user''
                     (snd (batchScan decode (take n barcodes) operation qty w)))))
      \<and> (\<forall>q. operation = OpReceive \<and> qty = Some q \<and> q \<noteq> 0 \<longrightarrow>
           (\<exists>resp.
              fst (receiveInventory (barcodes ! n) q None None
                     (snd (batchScan decode (take n barcodes) operation qty w))) = Inr resp
              \<and> items r2 = items r1 @ [AddItem resp]
              \<and> succeeded r2 = succeeded r1 + (if QuickAddResponse.success resp then 1 else 0)
              \<and> failed r2 = failed r1 + (if QuickAddResponse.success resp then 0 else 1)
              \<and> snd (batchScan decode (take (Suc n) barcodes) operation qty w) =
                  snd (receiveInventory (barcodes ! n) q None None
                     (snd (batchScan decode (take n barcodes) operation qty w)))))"
proof -
  define r1 where "r1 = fst (batchLoop decode operation qty (take n barcodes)
                      \<lparr>processed = 0, succeeded = 0, failed = 0, items = []\<rparr> w)"
  define w1 where "w1 = snd (batchLoop decode operation qty (take n barcodes)
                      \<lparr>processed = 0, succeeded = 0, failed = 0, items = []\<rparr> w)"
  define b where "b = barcodes ! n"
  define r2 where "r2 = fst (batchStep decode operation qty b r1 w1)"
  define w2 where "w2 = snd (batchStep decode operation qty b r1 w1)"
  have before: "fst (batchScan decode (take n barcodes) operation qty w) = Inr r1"
      "snd (batchScan decode (take n barcodes) operation qty w) = w1"
    by (simp_all add: batchScan_parts r1_def w1_def)
  have after: "fst (batchScan decode (take (Suc n) barcodes) operation qty w) = Inr r2"
      "snd (batchScan decode (take (Suc n) barcodes) operation qty w) = w2"
    using batchScan_next [OF assms, of decode operation qty w]
    by (simp_all add: r1_def w1_def b_def r2_def w2_def split: prod.splits)
  have counted: "processed r2 = processed r1 + 1"
    using batchStep_tally [where decode = decode and operation = operation and qty = qty
        and b = b and r = r1 and w = w1]
    by (simp add: r2_def)
  have lookup: "\<exists>resp.
      fst (decodeScan decode
             \<lparr>ScanDecodeRequest.barcode = b, ScanDecodeRequest.deviceId = None,
              ScanDecodeRequest.location = None, timestamp = None\<rparr> w1) = Inr resp
      \<and> items r2 = items r1 @ [ScanItem resp]
      \<and> succeeded r2 = succeeded r1 + (if ScanDecodeResponse.success resp then 1 else 0)
      \<and> failed r2 = failed r1 + (if ScanDecodeResponse.success resp then 0 else 1)
      \<and> w2 = snd (decodeScan decode
             \<lparr>ScanDecodeRequest.barcode = b, ScanDecodeRequest.deviceId = None,
              ScanDecodeRequest.location = None, timestamp = None\<rparr> w1)"
    if "operation = OpLookup"
  proof -
    obtain resp where resp: "fst (decodeScan decode
             \<lparr>ScanDecodeRequest.barcode = b, ScanDecodeRequest.deviceId = None,
              ScanDecodeRequest.location = None, timestamp = None\<rparr> w1) = Inr resp"
      using decodeScan_returns by blast
    have "batchStep decode operation qty b r1 w1 =
        (r1\<lparr>items := items r1 @ [ScanItem resp], processed := processed r1 + 1,
            succeeded := succeeded r1 + (if ScanDecodeResponse.success resp then 1 else 0),
            failed := failed r1 + (if ScanDecodeResponse.success resp then 0 else 1)\<rparr>,
         snd (decodeScan decode
             \<lparr>ScanDecodeRequest.barcode = b, ScanDecodeRequest.deviceId = None,
              ScanDecodeRequest.location = None, timestamp = None\<rparr> w1))"
      using that selectItem_lookup [OF resp, of qty]
      by (intro batchStep_ran) simp_all
    then show ?thesis
      using resp by (simp add: r2_def w2_def)
  qed
  have add: "\<exists>resp.
      fst (quickAdd
             \<lparr>QuickAddRequest.barcode = b, QuickAddRequest.quantity = q,
              QuickAddRequest.location = None, QuickAddRequest.deviceId = None\<rparr>
             ''batch-user'' w1) = Inr resp
      \<and> items r2 = items r1 @ [AddItem resp]
      \<and> succeeded r2 = succeeded r1 + (if QuickAddResponse.success resp then 1 else 0)
      \<and> failed r2 = failed r1 + (if QuickAddResponse.success resp then 0 else 1)
      \<and> w2 = snd (quickAdd
             \<lparr>QuickAddRequest.barcode = b, QuickAddRequest.quantity = q,
              QuickAddRequest.location = None, QuickAddRequest.deviceId = None\<rparr>
             ''batch-user'' w1)"
    if "operation = OpAdd \<and> qty = Some q \<and> q \<noteq> 0" for q
  proof -
    obtain resp where resp: "fst (quickAdd
             \<lparr>QuickAddRequest.barcode = b, QuickAddRequest.quantity = q,
              QuickAddRequest.location = None, QuickAddRequest.deviceId = None\<rparr>
             ''batch-user'' w1) = Inr resp"
      using quickAdd_returns by blast
    have "batchStep decode operation qty b r1 w1 =
        (r1\<lparr>items := items r1 @ [AddItem resp], processed := processed r1 + 1,
            succeeded := succeeded r1 + (if QuickAddResponse.success resp then 1 else 0),
            failed := failed r1 + (if QuickAddResponse.success resp then 0 else 1)\<rparr>,
         snd (quickAdd
             \<lparr>QuickAddRequest.barcode = b, QuickAddRequest.quantity = q,
              QuickAddRequest.location = None, QuickAddRequest.deviceId = None\<rparr>
             ''batch-user'' w1))"
      using that selectItem_add [OF _ resp, of decode]
      by (intro batchStep_ran) simp_all
    then show ?thesis
      using resp by (simp add: r2_def w2_def)
  qed
  have receive: "\<exists>resp.
      fst (receiveInventory b q None None w1) = Inr resp
      \<and> items r2 = items r1 @ [AddItem resp]
      \<and> succeeded r2 = succeeded r1 + (if QuickAddResponse.success resp then 1 else 0)
      \<and> failed r2 = failed r1 + (if QuickAddResponse.success resp then 0 else 1)
      \<and> w2 = snd (receiveInventory b q None None w1)"
    if "operation = OpReceive \<and> qty = Some q \<and> q \<noteq> 0" for q
  proof -
    obtain resp where resp: "fst (receiveInventory b q None None w1) = Inr resp"
      using receiveInventory_returns by blast
    have "batchStep decode operation qty b r1 w1 =
        (r1\<lparr>items := items r1 @ [AddItem resp], processed := processed r1 + 1,
            succeeded := succeeded r1 + (if QuickAddResponse.success resp then 1 else 0),
            failed := failed r1 + (if QuickAddResponse.success resp then 0 else 1)\<rparr>,
         snd (receiveInventory b q None None w1))"
      using that selectItem_receive [OF _ resp, of decode]
      by (intro batchStep_ran) simp_all
    then show ?thesis
      using resp by (simp add: r2_def w2_def)
  qed
  show ?thesis
    unfolding before after b_def [symmetric]
    using counted lookup add receive by blast
qed

text \<open>
  C7. \<open>batchScan\<close> returns for every batch, whatever the operations inside do.
  Every barcode is counted once in \<open>processed\<close> and once in \<open>succeeded\<close> or
  \<open>failed\<close>, and what was reported for the first \<open>n\<close> items stays in the result
  whatever happens to the later ones. An unsupported combination (the operation
  \<open>count\<close>, or \<open>add\<close> or \<open>receive\<close> with the quantity missing or \<open>0\<close>) gives
  for each barcode a failed item with the message of the \<open>TypeError\<close>, after the
  \<open>undefined\<close> that was pushed before the failure, and leaves the world as it was.
  And every item is run, whatever became of the items before it: the report of item
  \<open>n\<close> is what \<open>decodeScan\<close>, \<open>quickAdd\<close> or \<open>receiveInventory\<close> returns for that
  barcode in the world that the first \<open>n\<close> items left, it is counted as succeeded or
  failed by its own \<open>success\<close>, and the world after it is the one that call left.
\<close>

theorem batchScan_reports_every_item:
  "(\<exists>r. fst (batchScan decode barcodes operation qty w) = Inr r
      \<and> processed r = length barcodes
      \<and> succeeded r + failed r = length barcodes
      \<and> (\<forall>n. \<exists>r1 ys. fst (batchScan decode (take n barcodes) operation qty w) = Inr r1
              \<and> items r = items r1 @ ys
              \<and> succeeded r1 \<le> succeeded r \<and> failed r1 \<le> failed r)
      \<and> (operation \<noteq> OpLookup \<and> (operation = OpCount \<or> qty = None \<or> qty = Some 0) \<longrightarrow>
            r = \<lparr>processed = length barcodes, succeeded = 0, failed = length barcodes,
                 items = concat (map (\<lambda>b. [UndefinedItem,
                            ErrorItem b ''Cannot read properties of undefined (reading 'success')''])
                          barcodes)\<rparr>
            \<and> snd (batchScan decode barcodes operation qty w) = w))
   \<and> (\<forall>n. n < length barcodes \<longrightarrow>
        (\<exists>r1 r2.
              fst (batchScan decode (take n barcodes) operation qty w) = Inr r1
              \<and> fst (batchScan decode (take (Suc n) barcodes) operation qty w) = Inr r2
              \<and> processed r2 = processed r1 + 1
              \<and> (operation = OpLookup \<longrightarrow>
                   (\<exists>resp.
                      fst (decodeScan decode
                             \<lparr>ScanDecodeRequest.barcode = barcodes ! n, ScanDecodeRequest.deviceId = None,
                              ScanDecodeRequest.location = None, timestamp = None\<rparr>
                             (snd (batchScan decode (take n barcodes) operation qty w))) = Inr resp
                      \<and> items r2 = items r1 @ [ScanItem resp]
                      \<and> succeeded r2 = succeeded r1 + (if ScanDecodeResponse.success resp then 1 else 0)
                      \<and> failed r2 = failed r1 + (if ScanDecodeResponse.success resp then 0 else 1)
                      \<and> snd (batchScan decode (take (Suc n) barcodes) operation qty w) =
                          snd (decodeScan decode
                             \<lparr>ScanDecodeRequest.barcode = barcodes ! n, ScanDecodeRequest.deviceId = None,
                              ScanDecodeRequest.location = None, timestamp = None\<rparr>
                             (snd (batchScan decode (take n barcodes) operation qty w)))))
              \<and> (\<forall>q. operation = OpAdd \<and> qty = Some q \<and> q \<noteq> 0 \<longrightarrow>
                   (\<exists>resp.
                      fst (quickAdd
                             \<lparr>QuickAddRequest.barcode = barcodes ! n, QuickAddRequest.quantity = q,
                              QuickAddRequest.location = None, QuickAddRequest.deviceId = None\<rparr>
                             ''batch-user''
                             (snd (batchScan decode (take n barcodes) operation qty w))) = Inr resp
                      \<and> items r2 = items r1 @ [AddItem resp]
                      \<and> succeeded r2 = succeeded r1 + (if QuickAddResponse.success resp then 1 else 0)
                      \<and> failed r2 = failed r1 + (if QuickAddResponse.success resp then 0 else 1)
                      \<and> snd (batchScan decode (take (Suc n) barcodes) operation qty w) =
                          snd (quickAdd
                             \<lparr>QuickAddRequest.barcode = barcodes ! n, QuickAddRequest.quantity = q,
                              QuickAddRequest.location = None, QuickAddRequest.deviceId = None\<rparr>
                             ''batch-user''
                             (snd (batchScan decode (take n barcodes) operation qty w)))))
              \<and> (\<forall>q. operation = OpReceive \<and> qty = Some q \<and> q \<noteq> 0 \<longrightarrow>
                   (\<exists>resp.
                      fst (receiveInventory (barcodes ! n) q None None
                             (snd (batchScan decode (take n barcodes) operation qty w))) = Inr resp
                      \<and> items r2 = items r1 @ [AddItem resp]
                      \<and> succeeded r2 = succeeded r1 + (if QuickAddResponse.success resp then 1 else 0)
                      \<and> failed r2 = failed r1 + (if QuickAddResponse.success resp then 0 else 1)
                      \<and> snd (batchScan decode (take (Suc n) barcodes) operation qty w) =
                          snd (receiveInventory (barcodes ! n) q None None
                             (snd (batchScan decode (take n barcodes) operation qty w)))))))"
  apply (rule conjI)
   apply (rule batchScan_tallies)
  apply (intro allI impI)
  apply (erule batchScan_runs_each)
  done

lemma first_item_fails:
  "map_sum id (\<lambda>r. (processed r, succeeded r, failed r))
     (fst (batchScan decodeRaw [''zz''] OpLookup None (shop (\<lambda>_. None)))) = Inr (1, 0, 1)"
  by code_simp

lemma second_item_succeeds:
  "map_sum id ScanDecodeResponse.success
     (fst (decodeScan decodeRaw lookupAbc
            (snd (batchScan decodeRaw [''zz''] OpLookup None (shop (\<lambda>_. None)))))) = Inr True"
  by code_simp

theorem batchScan_reports_every_item_witness:
  "OpCount \<noteq> OpLookup
   \<and> fst (batchScan decodeRaw [''abc-1'', ''zz''] OpCount None (shop (\<lambda>_. None))) =
       Inr \<lparr>processed = 2, succeeded = 0, failed = 2,
            items = [UndefinedItem,
                     ErrorItem ''abc-1'' ''Cannot read properties of undefined (reading 'success')'',
                     UndefinedItem,
                     ErrorItem ''zz'' ''Cannot read properties of undefined (reading 'success')'']\<rparr>
   \<and> snd (batchScan decodeRaw [''abc-1'', ''zz''] OpCount None (shop (\<lambda>_. None))) = shop (\<lambda>_. None)
   \<and> (1 :: nat) < length [''zz'', ''abc-1'']
   \<and> (\<exists>r1 r2 resp.
         fst (batchScan decodeRaw [''zz''] OpLookup None (shop (\<lambda>_. None))) = Inr r1
         \<and> succeeded r1 = 0 \<and> failed r1 = 1
         \<and> fst (decodeScan decodeRaw lookupAbc
                  (snd (batchScan decodeRaw [''zz''] OpLookup None (shop (\<lambda>_. None))))) = Inr resp
         \<and> ScanDecodeResponse.success resp
         \<and> fst (batchScan decodeRaw [''zz'', ''abc-1''] OpLookup None (shop (\<lambda>_. None))) = Inr r2
         \<and> items r2 = items r1 @ [ScanItem resp]
         \<and> processed r2 = 2 \<and> succeeded r2 = 1 \<and> failed r2 = 1)"
proof -
  let ?shop = "shop (\<lambda>_. None)"
  have unsupported:
    "fst (batchScan decodeRaw [''abc-1'', ''zz''] OpCount None ?shop) =
       Inr \<lparr>processed = 2, succeeded = 0, failed = 2,
            items = [UndefinedItem,
                     ErrorItem ''abc-1'' ''Cannot read properties of undefined (reading 'success')'',
                     UndefinedItem,
                     ErrorItem ''zz'' ''Cannot read properties of undefined (reading 'success')'']\<rparr>
     \<and> snd (batchScan decodeRaw [''abc-1'', ''zz''] OpCount None ?shop) = ?shop"
    using batchScan_reports_every_item
      [of decodeRaw "[''abc-1'', ''zz'']" OpCount None ?shop, THEN conjunct1]
    by auto
  have second: "(1 :: nat) < length [''zz'', ''abc-1'']"
    by simp
  have request: "\<lparr>ScanDecodeRequest.barcode = [''zz'', ''abc-1''] ! 1,
       ScanDecodeRequest.deviceId = None, ScanDecodeRequest.location = None,
       timestamp = None\<rparr> = lookupAbc"
    by (simp add: lookupAbc_def)
  obtain r1 r2 resp where
      before: "fst (batchScan decodeRaw [''zz''] OpLookup None ?shop) = Inr r1"
      and after: "fst (batchScan decodeRaw [''zz'', ''abc-1''] OpLookup None ?shop) = Inr r2"
      and counted: "processed r2 = processed r1 + 1"
      and ran: "fst (decodeScan decodeRaw lookupAbc
                  (snd (batchScan decodeRaw [''zz''] OpLookup None ?shop))) = Inr resp"
      and reported: "items r2 = items r1 @ [ScanItem resp]"
      and good: "succeeded r2 = succeeded r1 + (if ScanDecodeResponse.success resp then 1 else 0)"
      and bad: "failed r2 = failed r1 + (if ScanDecodeResponse.success resp then 0 else 1)"
    using batchScan_reports_every_item
      [of decodeRaw "[''zz'', ''abc-1'']" OpLookup None ?shop, THEN conjunct2, rule_format,
       OF second]
    unfolding request
    by (auto simp: numeral_2_eq_2)
  have tallies: "processed r1 = 1 \<and> succeeded r1 = 0 \<and> failed r1 = 1"
    using first_item_fails before by simp
  have success: "ScanDecodeResponse.success resp"
    using second_item_succeeds ran by simp
  show ?thesis
    using unsupported second before after counted ran reported good bad tallies success
    by auto
qed


section \<open>Failures of the scan operations\<close>









section \<open>Stock mutation\<close>


lemma call_products:
  "(\<And>v. products (snd (act v)) = products v) \<Longrightarrow> products (snd (call ev act w)) = products w"
  by (simp add: call_def emit_def split: option.splits)

lemma cacheGetProduct_products: "products (snd (cacheGetProduct key w)) = products w"
  by (simp add: cacheGetProduct_def cacheGet_def call_def emit_def await_def resolve_def
      split: option.splits prod.splits sum.splits cval.splits)

lemma cacheSet_products: "products (snd (cacheSet key v ttl w)) = products w"
  by (simp add: cacheSet_def call_def emit_def split: option.splits)

lemma cacheDelete_products: "products (snd (cacheDelete key w)) = products w"
  by (simp add: cacheDelete_def call_def emit_def split: option.splits)

lemma cacheIncrement_products: "products (snd (cacheIncrement key delta w)) = products w"
  by (simp add: cacheIncrement_def call_def emit_def split: option.splits prod.splits cval.splits)

lemma repoFindByBarcode_products: "products (snd (repoFindByBarcode b w)) = products w"
  by (simp add: repoFindByBarcode_def call_def emit_def split: option.splits)

lemma await_products:
  assumes "\<And>v. products (snd (m v)) = products v"
    and "\<And>x v. products (snd (f x v)) = products v"
  shows "products (snd (await m f w)) = products w"
proof (cases "m w")
  case (Pair r w')
  then have "products w' = products w"
    using assms(1) [of w] by simp
  then show ?thesis
    using Pair assms(2) by (cases r) (simp_all add: await_def)
qed

lemma tryCatch_products:
  assumes "\<And>v. products (snd (m v)) = products v"
    and "\<And>e v. products (snd (h e v)) = products v"
  shows "products (snd (tryCatch m h w)) = products w"
proof (cases "m w")
  case (Pair r w')
  then have "products w' = products w"
    using assms(1) [of w] by simp
  then show ?thesis
    using Pair assms(2) by (cases r) (simp_all add: tryCatch_def)
qed

lemma resolve_products: "products (snd (resolve x w)) = products w"
  by (simp add: resolve_def)

lemma throw_products: "products (snd (throw e w)) = products w"
  by (simp add: throw_def)

lemma getOrSet_products:
  assumes "\<And>v. products (snd (computeFn v)) = products v"
  shows "products (snd (getOrSet key computeFn w)) = products w"
  unfolding getOrSet_def
  by (intro await_products cacheGetProduct_products)
     (auto split: option.splits intro!: await_products resolve_products cacheSet_products assms)

lemma getProductByBarcode_products: "products (snd (getProductByBarcode b w)) = products w"
  unfolding getProductByBarcode_def
  by (rule getOrSet_products) (rule repoFindByBarcode_products)

lemma logScan_products: "products (snd (logScan d w)) = products w"
  unfolding logScan_def
  by (intro tryCatch_products await_products cacheIncrement_products resolve_products)
     (simp add: consoleError_def emit_def)

lemma quickAdd_products: "products (snd (quickAdd request user w)) = products w"
  unfolding quickAdd_def quickAddTry_def
  by (intro tryCatch_products await_products getProductByBarcode_products resolve_products)
     (auto split: option.splits sum.splits
        intro!: await_products resolve_products logScan_products cacheDelete_products)

lemma receiveInventory_products:
  "products (snd (receiveInventory b qty supplier user w)) = products w"
  unfolding receiveInventory_def receiveInventoryTry_def
  by (intro tryCatch_products await_products getProductByBarcode_products resolve_products)
     (auto split: option.splits sum.splits
        intro!: await_products resolve_products logScan_products throw_products)

text \<open>
  C6. For every inventory record and every quantity \<open>\<le> 0\<close>, \<open>addStock\<close> fails with
  \<open>InvalidQuantity\<close>; and a \<open>quickAdd\<close> of such a quantity, on a barcode whose
  product has that inventory record, answers \<open>success = false\<close> with the message of
  \<open>InvalidQuantity\<close> and \<open>newStock\<close> equal to the unchanged \<open>quantityOnHand\<close>:
  the product in the response is the one that was looked up, the world is the one the
  lookup left, and the rows of the repository are unchanged.
\<close>

theorem nonpositive_quantity_is_rejected:
  "qty \<le> 0 \<longrightarrow>
     addStock stock qty = Inl InvalidQuantity
     \<and> (QuickAddRequest.quantity request = qty
          \<and> fst (getProductByBarcode (QuickAddRequest.barcode request) w) = Inr (Some p)
          \<and> inventory p = Some stock \<longrightarrow>
            fst (quickAdd request user w) =
              Inr \<lparr>QuickAddResponse.success = False,
                   QuickAddResponse.product = Some p,
                   QuickAddResponse.quantity = qty,
                   newStock = quantityOnHand stock,
                   QuickAddResponse.message = ''Error adding stock: InvalidQuantity''\<rparr>
            \<and> snd (quickAdd request user w)
                = snd (getProductByBarcode (QuickAddRequest.barcode request) w)
            \<and> products (snd (quickAdd request user w)) = products w)"
proof (intro impI conjI)
  assume neg: "qty \<le> 0"
  show rejected: "addStock stock qty = Inl InvalidQuantity"
    using neg by (simp add: addStock_def)
  assume found: "QuickAddRequest.quantity request = qty
          \<and> fst (getProductByBarcode (QuickAddRequest.barcode request) w) = Inr (Some p)
          \<and> inventory p = Some stock"
  let ?lookup = "getProductByBarcode (QuickAddRequest.barcode request)"
  have body: "quickAddTry request user w =
      (Inr \<lparr>QuickAddResponse.success = False,
           QuickAddResponse.product = Some p,
           QuickAddResponse.quantity = qty,
           newStock = quantityOnHand stock,
           QuickAddResponse.message = ''Error adding stock: InvalidQuantity''\<rparr>, snd (?lookup w))"
    using found rejected
    by (simp add: quickAddTry_def await_returns resolve_def InvalidQuantity_def)
  then have whole: "quickAdd request user w = quickAddTry request user w"
    by (simp add: quickAdd_def tryCatch_passed)
  show "fst (quickAdd request user w) =
              Inr \<lparr>QuickAddResponse.success = False,
                   QuickAddResponse.product = Some p,
                   QuickAddResponse.quantity = qty,
                   newStock = quantityOnHand stock,
                   QuickAddResponse.message = ''Error adding stock: InvalidQuantity''\<rparr>"
    using body whole by simp
  show "snd (quickAdd request user w) = snd (?lookup w)"
    using body whole by simp
  show "products (snd (quickAdd request user w)) = products w"
    by (rule quickAdd_products)
qed

lemma lookup_widget:
  "fst (getProductByBarcode ''abc-1'' (shop (\<lambda>_. None))) = Inr (Some widget)"
  by code_simp

theorem nonpositive_quantity_is_rejected_witness:
  "(- 1 :: int) \<le> 0
   \<and> addStock tenOnHand (- 1) = Inl InvalidQuantity
   \<and> fst (quickAdd removeOne ''u1'' (shop (\<lambda>_. None))) =
       Inr \<lparr>QuickAddResponse.success = False,
            QuickAddResponse.product = Some widget,
            QuickAddResponse.quantity = - 1,
            newStock = 10,
            QuickAddResponse.message = ''Error adding stock: InvalidQuantity''\<rparr>
   \<and> products (snd (quickAdd removeOne ''u1'' (shop (\<lambda>_. None)))) = [widget]"
proof -
  have nonpositive: "(- 1 :: int) \<le> 0"
    by simp
  have found: "QuickAddRequest.quantity removeOne = - 1
      \<and> fst (getProductByBarcode (QuickAddRequest.barcode removeOne) (shop (\<lambda>_. None)))
          = Inr (Some widget)
      \<and> inventory widget = Some tenOnHand"
    using lookup_widget by (simp add: removeOne_def widget_def tenOnHand_def)
  have "addStock tenOnHand (- 1) = Inl InvalidQuantity
     \<and> fst (quickAdd removeOne ''u1'' (shop (\<lambda>_. None))) =
         Inr \<lparr>QuickAddResponse.success = False,
              QuickAddResponse.product = Some widget,
              QuickAddResponse.quantity = - 1,
              newStock = quantityOnHand tenOnHand,
              QuickAddResponse.message = ''Error adding stock: InvalidQuantity''\<rparr>
     \<and> products (snd (quickAdd removeOne ''u1'' (shop (\<lambda>_. None))))
         = products (shop (\<lambda>_. None))"
    using nonpositive_quantity_is_rejected
      [of "- 1" tenOnHand removeOne "shop (\<lambda>_. None)" widget "''u1''"]
      nonpositive found
    by blast
  then show ?thesis
    by (simp add: tenOnHand_def shop_def)
qed

section \<open>Runs without faults\<close>


lemma call_noFaults:
  "faults w = (\<lambda>_. None) \<Longrightarrow> call ev act w = act (emit ev w)"
  by (simp add: call_def)

lemma faults_emit: "faults (emit ev w) = faults w"
  by (simp add: emit_def)

lemma cacheGetProduct_noFaults:
  "faults w = (\<lambda>_. None) \<Longrightarrow>
     cacheGetProduct key w = (Inr (cachedProduct w key), emit (CacheGet key) w)"
  by (simp add: cacheGetProduct_def cacheGet_def call_noFaults await_def resolve_def
      cachedProduct_def emit_def split: option.splits cval.splits)

lemma cacheSet_noFaults:
  "faults w = (\<lambda>_. None) \<Longrightarrow>
     cacheSet key v ttl w =
       (Inr (), (emit (CacheSet key) w)\<lparr>cache := AList.update key (v, ttl) (cache w)\<rparr>)"
  by (simp add: cacheSet_def call_noFaults emit_def)

lemma repoFindByBarcode_noFaults:
  "faults w = (\<lambda>_. None) \<Longrightarrow>
     repoFindByBarcode b w =
       (Inr (find (\<lambda>p. Product.barcode p = b) (products w)), emit (RepoFindByBarcode b) w)"
  by (simp add: repoFindByBarcode_def call_noFaults emit_def)

lemma emit_fields:
  "cache (emit ev w) = cache w" "products (emit ev w) = products w"
  "nextId (emit ev w) = nextId w" "trace (emit ev w) = trace w @ [ev]"
  by (simp_all add: emit_def)

lemma getOrSet_find_noFaults:
  assumes "faults w = (\<lambda>_. None)"
  shows "getOrSet key (repoFindByBarcode n) w =
      (case cachedProduct w key of
         Some p \<Rightarrow> (Inr (Some p), emit (CacheGet key) w)
       | None \<Rightarrow>
           (case find (\<lambda>p. Product.barcode p = n) (products w) of
              None \<Rightarrow> (Inr None, emit (RepoFindByBarcode n) (emit (CacheGet key) w))
            | Some p \<Rightarrow>
                (Inr (Some p),
                 (emit (CacheSet key) (emit (RepoFindByBarcode n) (emit (CacheGet key) w)))
                   \<lparr>cache := AList.update key (CProduct p, None) (cache w)\<rparr>)))"
proof -
  let ?w1 = "emit (CacheGet key) w"
  let ?w2 = "emit (RepoFindByBarcode n) ?w1"
  have f1: "faults ?w1 = (\<lambda>_. None)" and f2: "faults ?w2 = (\<lambda>_. None)"
    using assms by (simp_all add: faults_emit)
  have get: "cacheGetProduct key w = (Inr (cachedProduct w key), ?w1)"
    using assms by (rule cacheGetProduct_noFaults)
  have found: "repoFindByBarcode n ?w1 =
      (Inr (find (\<lambda>p. Product.barcode p = n) (products w)), ?w2)"
    using repoFindByBarcode_noFaults [OF f1, of n] by (simp add: emit_fields)
  have stored: "cacheSet key v None ?w2 =
      (Inr (), (emit (CacheSet key) ?w2)\<lparr>cache := AList.update key (v, None) (cache w)\<rparr>)" for v
    using cacheSet_noFaults [OF f2, of key v None] by (simp add: emit_fields)
  show ?thesis
    by (simp add: getOrSet_def await_def resolve_def get found stored split: option.splits)
qed

lemma getProductByBarcode_noFaults:
  assumes "faults w = (\<lambda>_. None)"
  shows "fst (getProductByBarcode b w) =
           Inr (case cachedProduct w (''product:barcode:'' @ normalize_barcode b) of
                  Some p \<Rightarrow> Some p
                | None \<Rightarrow> find (\<lambda>p. Product.barcode p = normalize_barcode b) (products w))"
  unfolding getProductByBarcode_def getOrSet_find_noFaults [OF assms]
  by (simp split: option.splits)

lemma getProductByBarcode_faults:
  assumes "faults w = (\<lambda>_. None)"
  shows "faults (snd (getProductByBarcode b w)) = (\<lambda>_. None)"
  unfolding getProductByBarcode_def getOrSet_find_noFaults [OF assms]
  using assms by (simp add: faults_emit split: option.splits)

lemma getOrSet_other_keys:
  assumes "faults w = (\<lambda>_. None)" and "key \<noteq> k"
  shows "map_of (cache (snd (getOrSet k (repoFindByBarcode n) w))) key = map_of (cache w) key"
  unfolding getOrSet_find_noFaults [OF assms(1)]
  using assms(2) by (simp add: emit_fields update_conv' split: option.splits)

lemma getProductByBarcode_other_keys:
  assumes "faults w = (\<lambda>_. None)" and "key \<noteq> ''product:barcode:'' @ normalize_barcode b"
  shows "cachedProduct (snd (getProductByBarcode b w)) key = cachedProduct w key"
  unfolding getProductByBarcode_def cachedProduct_def
  using getOrSet_other_keys [OF assms] by simp

lemma cacheIncrement_other_keys:
  "key \<noteq> k \<Longrightarrow> map_of (cache (snd (cacheIncrement k delta w))) key = map_of (cache w) key"
  by (simp add: cacheIncrement_def call_def emit_fields update_conv'
      split: option.splits prod.splits cval.splits)

lemma logScan_other_keys:
  assumes "key \<noteq> ''metrics:total-scans''" and "key \<noteq> ''metrics:scans:'' @ scanType d"
  shows "map_of (cache (snd (logScan d w))) key = map_of (cache w) key"
proof -
  let ?k1 = "''metrics:total-scans''"
  let ?k2 = "''metrics:scans:'' @ scanType d"
  obtain r1 w1 where s1: "cacheIncrement ?k1 1 w = (r1, w1)"
    by (cases "cacheIncrement ?k1 1 w")
  obtain r2 w2 where s2: "cacheIncrement ?k2 1 w1 = (r2, w2)"
    by (cases "cacheIncrement ?k2 1 w1")
  have c1: "map_of (cache w1) key = map_of (cache w) key"
    using cacheIncrement_other_keys [OF assms(1), of 1 w] s1 by simp
  have c2: "map_of (cache w2) key = map_of (cache w) key"
    using cacheIncrement_other_keys [OF assms(2), of 1 w1] s2 c1 by simp
  show ?thesis
    using s1 s2 c1 c2
    by (cases r1; cases r2)
       (simp_all add: logScan_def tryCatch_def await_def resolve_def consoleError_def emit_fields)
qed

lemma await_Inr: "m w = (Inr x, w') \<Longrightarrow> await m f w = f x w'"
  by (simp add: await_def)

lemma await_assoc: "await (await m f) g = await m (\<lambda>x. await (f x) g)"
  by (rule ext) (simp add: await_def split: prod.splits sum.splits)

lemma await_resolve: "await (resolve x) f w = f x w"
  by (simp add: await_def resolve_def)

lemma normalize_abc: "normalize_barcode ''abc-1'' = ''ABC1''"
  by code_simp


lemma cacheGet_noFaults:
  "faults w = (\<lambda>_. None) \<Longrightarrow>
     cacheGet key w = (Inr (cachedValue w key), emit (CacheGet key) w)"
  by (simp add: cacheGet_def call_noFaults cachedValue_def emit_def)

lemma cacheIncrement_noFaults:
  assumes "faults w = (\<lambda>_. None)"
  shows "\<exists>r w'. cacheIncrement key delta w = (Inr r, w')
           \<and> trace w' = trace w @ [CacheIncrement key] \<and> faults w' = (\<lambda>_. None)
           \<and> products w' = products w"
  using assms
  by (simp add: cacheIncrement_def call_noFaults emit_def split: option.splits prod.splits cval.splits)

lemma logScan_noFaults:
  assumes "faults w = (\<lambda>_. None)"
  shows "trace (snd (logScan d w)) =
           trace w @ [CacheIncrement ''metrics:total-scans'',
                      CacheIncrement (''metrics:scans:'' @ scanType d)]"
proof -
  define k1 where "k1 = ''metrics:total-scans''"
  define k2 where "k2 = ''metrics:scans:'' @ scanType d"
  have body: "logScan d =
      tryCatch (await (cacheIncrement k1 1) (\<lambda>_. await (cacheIncrement k2 1) (\<lambda>_. resolve ())))
        (\<lambda>error. consoleError ''Error logging scan:'' error)"
    unfolding logScan_def k1_def k2_def by (rule refl)
  obtain r1 w1 where s1: "cacheIncrement k1 1 w = (Inr r1, w1)"
      and t1: "trace w1 = trace w @ [CacheIncrement k1]"
      and f1: "faults w1 = (\<lambda>_. None)"
    using cacheIncrement_noFaults [OF assms, of k1 1] by blast
  obtain r2 w2 where s2: "cacheIncrement k2 1 w1 = (Inr r2, w2)"
      and t2: "trace w2 = trace w1 @ [CacheIncrement k2]"
    using cacheIncrement_noFaults [OF f1, of k2 1] by blast
  have "logScan d w = (Inr (), w2)"
    by (simp add: body tryCatch_def
        await_Inr [where m = "cacheIncrement k1 1" and w = w, OF s1]
        await_Inr [where m = "cacheIncrement k2 1" and w = w1, OF s2]
        resolve_def)
  then have "trace (snd (logScan d w)) = trace w @ [CacheIncrement k1, CacheIncrement k2]"
    using t1 t2 by simp
  then show ?thesis
    unfolding k1_def k2_def .
qed

lemma getProductByBarcode_noFaults_trace:
  assumes "faults w = (\<lambda>_. None)"
  shows "trace (snd (getProductByBarcode b w)) =
      trace w @ CacheGet (''product:barcode:'' @ normalize_barcode b)
        # (case cachedProduct w (''product:barcode:'' @ normalize_barcode b) of
             Some p \<Rightarrow> []
           | None \<Rightarrow>
               RepoFindByBarcode (normalize_barcode b)
                 # (case find (\<lambda>p. Product.barcode p = normalize_barcode b) (products w) of
                      None \<Rightarrow> []
                    | Some p \<Rightarrow> [CacheSet (''product:barcode:'' @ normalize_barcode b)]))"
  unfolding getProductByBarcode_def getOrSet_find_noFaults [OF assms]
  by (simp add: emit_fields split: option.splits)

lemma getProductByBarcode_noFaults_cache:
  assumes "faults w = (\<lambda>_. None)" and "key \<noteq> ''product:barcode:'' @ normalize_barcode b"
  shows "map_of (cache (snd (getProductByBarcode b w))) key = map_of (cache w) key"
  unfolding getProductByBarcode_def
  using getOrSet_other_keys [OF assms] by simp


section \<open>Resolution of a scan\<close>

text \<open>
  C5, as stated, fails: with an entry under \<open>scan:product:abc-1\<close> in the cache,
  \<open>decodeScan\<close> of \<open>abc-1\<close> answers with that entry after a single read of the
  cache under the raw key. The key \<open>product:barcode:ABC1\<close> of the normalized barcode
  is not read and the repository is not asked; the lookup by normalized barcode would
  have returned the stored product, which differs.
\<close>

theorem decodeScan_answers_from_raw_key:
  "fst (decodeScan decodeRaw lookupAbc staleShop) =
       Inr \<lparr>ScanDecodeResponse.success = True,
            ScanDecodeResponse.product = Some (CProduct staleWidget),
            ScanDecodeResponse.barcode = decodeRaw ''abc-1'',
            cached = True,
            ScanDecodeResponse.message = Some ''Product found''\<rparr>
   \<and> trace (snd (decodeScan decodeRaw lookupAbc staleShop)) =
       [CacheGet ''scan:product:abc-1'', CacheIncrement ''metrics:total-scans'',
        CacheIncrement ''metrics:scans:lookup'']
   \<and> fst (getProductByBarcode (rawValue (decodeRaw ''abc-1'')) staleShop) = Inr (Some widget)
   \<and> staleWidget \<noteq> widget"
  by code_simp

text \<open>
  C5, as amended. In a run in which no call to the cache or to the repository fails,
  \<open>decodeScan\<close> first reads the cache under \<open>scan:product:\<close> followed by the raw
  value. When the value there is truthy it is the product of the response, with
  \<open>cached = true\<close>: the only calls are that read and the two counters of \<open>logScan\<close>,
  so neither the key of the normalized barcode nor the repository is consulted, and the
  entry is left as it was. Otherwise the product is the one that \<open>getProductByBarcode\<close>
  finds, in the cache under \<open>product:barcode:\<close> followed by the normalized barcode or,
  on a miss there, in the repository by the normalized barcode, with \<open>cached = false\<close>;
  the calls are the two reads of the cache, the query and the write under the
  normalized key when that key missed, the write under the raw key when a product was
  found, and the two counters; a product that was found is afterwards held under the raw
  key with a ttl of 1800 seconds. \<open>success\<close> tells whether the response has a product.
\<close>

theorem decodeScan_resolution:
  "faults w = (\<lambda>_. None) \<longrightarrow>
   (let raw = rawValue (decode (ScanDecodeRequest.barcode request));
        key = ''scan:product:'' @ raw;
        pkey = ''product:barcode:'' @ normalize_barcode raw;
        stored = find (\<lambda>p. Product.barcode p = normalize_barcode raw) (products w);
        found = (case cachedProduct w pkey of Some p \<Rightarrow> Some p | None \<Rightarrow> stored);
        hit = truthy (cachedValue w key);
        product = (if hit then cachedValue w key else map_option CProduct found);
        counters = [CacheIncrement ''metrics:total-scans'',
                    CacheIncrement ''metrics:scans:lookup''];
        w' = snd (decodeScan decode request w)
    in fst (decodeScan decode request w) =
         Inr \<lparr>ScanDecodeResponse.success = (product \<noteq> None),
              ScanDecodeResponse.product = product,
              ScanDecodeResponse.barcode = decode (ScanDecodeRequest.barcode request),
              cached = hit,
              ScanDecodeResponse.message =
                Some (if product \<noteq> None then ''Product found''
                      else ''Barcode decoded but product not in database'')\<rparr>
       \<and> trace w' =
           trace w @ [CacheGet key]
             @ (if hit then []
                else CacheGet pkey
                  # (case cachedProduct w pkey of
                       Some p \<Rightarrow> []
                     | None \<Rightarrow>
                         RepoFindByBarcode (normalize_barcode raw)
                           # (case stored of None \<Rightarrow> [] | Some p \<Rightarrow> [CacheSet pkey]))
                  @ (case found of None \<Rightarrow> [] | Some p \<Rightarrow> [CacheSet key]))
             @ counters
       \<and> map_of (cache w') key =
           (if hit then map_of (cache w) key
            else (case found of
                    None \<Rightarrow> map_of (cache w) key
                  | Some p \<Rightarrow> Some (CProduct p, Some 1800))))"
proof
  assume nofaults: "faults w = (\<lambda>_. None)"
  define raw where "raw = rawValue (decode (ScanDecodeRequest.barcode request))"
  define key where "key = ''scan:product:'' @ raw"
  define pkey where "pkey = ''product:barcode:'' @ normalize_barcode raw"
  define stored where
    "stored = find (\<lambda>p. Product.barcode p = normalize_barcode raw) (products w)"
  define found where
    "found = (case cachedProduct w pkey of Some p \<Rightarrow> Some p | None \<Rightarrow> stored)"
  define counters where
    "counters = [CacheIncrement ''metrics:total-scans'', CacheIncrement ''metrics:scans:lookup'']"
  define calls where "calls =
      CacheGet pkey
        # (case cachedProduct w pkey of
             Some p \<Rightarrow> []
           | None \<Rightarrow>
               RepoFindByBarcode (normalize_barcode raw)
                 # (case stored of None \<Rightarrow> [] | Some p \<Rightarrow> [CacheSet pkey]))"
  define w1 where "w1 = emit (CacheGet key) w"
  define answer where "answer = (\<lambda>product cached.
      \<lparr>ScanDecodeResponse.success = truthy product,
       ScanDecodeResponse.product = product,
       ScanDecodeResponse.barcode = decode (ScanDecodeRequest.barcode request),
       cached = cached,
       ScanDecodeResponse.message =
         Some (if truthy product then ''Product found''
               else ''Barcode decoded but product not in database'')\<rparr>)"
  define entry where "entry = (\<lambda>product.
      \<lparr>ScanLogData.product = product,
       ScanLogData.barcode = ScanDecodeRequest.barcode request,
       scanType = ''lookup'',
       ScanLogData.deviceId = ScanDecodeRequest.deviceId request,
       ScanLogData.location = ScanDecodeRequest.location request,
       ScanLogData.quantity = None,
       userId = None,
       decodedData = Some (decode (ScanDecodeRequest.barcode request))\<rparr>)"
  have keys: "key \<noteq> pkey" "key \<noteq> ''metrics:total-scans''"
      "key \<noteq> ''metrics:scans:'' @ scanType (entry product)" for product
    by (simp_all add: key_def pkey_def entry_def)
  have body: "decodeScanTry decode request =
      await (cacheGet key)
        (\<lambda>cachedProduct. await
           (if truthy cachedProduct
            then resolve (cachedProduct, True)
            else
              await (getProductByBarcode raw)
                (\<lambda>found. case found of
                     None \<Rightarrow> resolve (None, False)
                   | Some p \<Rightarrow>
                       await (cacheSet key (CProduct p) (Some 1800))
                         (\<lambda>_. resolve (Some (CProduct p), False))))
           (\<lambda>(product, cached). await (logScan (entry product))
              (\<lambda>_. resolve (answer product cached))))"
    unfolding decodeScanTry_def key_def raw_def entry_def answer_def by (rule refl)
  have f1: "faults w1 = (\<lambda>_. None)"
    using nofaults by (simp add: w1_def faults_emit)
  have get: "cacheGet key w = (Inr (cachedValue w key), w1)"
    using nofaults by (simp add: cacheGet_noFaults w1_def)
  have same1: "cachedProduct w1 k = cachedProduct w k" "products w1 = products w"
      "map_of (cache w1) k = map_of (cache w) k" "trace w1 = trace w @ [CacheGet key]" for k
    by (simp_all add: w1_def cachedProduct_def emit_fields)
  have logged: "await (logScan (entry product)) (\<lambda>_. resolve (answer product cached)) v
      = (Inr (answer product cached), snd (logScan (entry product) v))" for product cached v
    using logScan_returns [of "entry product" v]
    by (simp add: await_returns resolve_def)
  have kept: "map_of (cache (snd (logScan (entry product) v))) key = map_of (cache v) key"
    for product v
    using logScan_other_keys [OF keys(2) keys(3), of product v] by simp
  have counted: "faults v = (\<lambda>_. None) \<Longrightarrow>
      trace (snd (logScan (entry product) v)) = trace v @ counters" for product v
    using logScan_noFaults [of v "entry product"] by (simp add: counters_def entry_def)
  have run: "\<exists>w'. decodeScanTry decode request w =
        (Inr (answer (if truthy (cachedValue w key) then cachedValue w key
                      else map_option CProduct found)
                (truthy (cachedValue w key))), w')
      \<and> trace w' = trace w @ [CacheGet key]
            @ (if truthy (cachedValue w key) then []
               else calls @ (case found of None \<Rightarrow> [] | Some p \<Rightarrow> [CacheSet key]))
            @ counters
      \<and> map_of (cache w') key =
           (if truthy (cachedValue w key) then map_of (cache w) key
            else (case found of
                    None \<Rightarrow> map_of (cache w) key
                  | Some p \<Rightarrow> Some (CProduct p, Some 1800)))"
  proof (cases "truthy (cachedValue w key)")
    case True
    let ?w' = "snd (logScan (entry (cachedValue w key)) w1)"
    have "decodeScanTry decode request w = (Inr (answer (cachedValue w key) True), ?w')"
      using True
      by (simp add: body await_Inr [where m = "cacheGet key" and w = w, OF get]
          await_resolve logged)
    moreover have "trace ?w' = trace w @ [CacheGet key] @ counters"
      using counted [OF f1] same1(4) by simp
    moreover have "map_of (cache ?w') key = map_of (cache w) key"
      using kept [of "cachedValue w key" w1] same1(3) [of key] by simp
    ultimately show ?thesis
      using True by simp
  next
    case False
    let ?w2 = "snd (getProductByBarcode raw w1)"
    have "fst (getProductByBarcode raw w1) = Inr found"
      using getProductByBarcode_noFaults [OF f1, of raw]
      by (simp add: found_def stored_def pkey_def same1 cong: option.case_cong)
    then have lookup: "getProductByBarcode raw w1 = (Inr found, ?w2)"
      by (cases "getProductByBarcode raw w1") simp
    have f2: "faults ?w2 = (\<lambda>_. None)"
      using f1 by (rule getProductByBarcode_faults)
    have c2: "map_of (cache ?w2) key = map_of (cache w) key"
      using getProductByBarcode_noFaults_cache [OF f1, of key raw] keys(1) same1(3) [of key]
      by (simp add: pkey_def)
    have t2: "trace ?w2 = trace w @ [CacheGet key] @ calls"
      using getProductByBarcode_noFaults_trace [OF f1, of raw]
      by (simp add: calls_def stored_def pkey_def same1 cong: option.case_cong)
    consider (unknown) "found = None" | (known) p where "found = Some p"
      by (cases found) auto
    then show ?thesis
    proof cases
      case unknown
      let ?w' = "snd (logScan (entry None) ?w2)"
      have missed: "getProductByBarcode raw w1 = (Inr None, ?w2)"
        using lookup unknown by simp
      have "decodeScanTry decode request w = (Inr (answer None False), ?w')"
        using False
        by (simp add: body await_Inr [where m = "cacheGet key" and w = w, OF get]
            await_Inr [where m = "getProductByBarcode raw" and w = w1, OF missed]
            await_resolve await_assoc logged)
      moreover have "trace ?w' = trace w @ [CacheGet key] @ calls @ counters"
        using counted [OF f2] t2 by simp
      moreover have "map_of (cache ?w') key = map_of (cache w) key"
        using kept [of None ?w2] c2 by simp
      ultimately show ?thesis
        using False unknown by simp
    next
      case known
      let ?w3 = "(emit (CacheSet key) ?w2)\<lparr>cache := AList.update key (CProduct p, Some 1800) (cache ?w2)\<rparr>"
      let ?w' = "snd (logScan (entry (Some (CProduct p))) ?w3)"
      have hit: "getProductByBarcode raw w1 = (Inr (Some p), ?w2)"
        using lookup known by simp
      have stored3: "cacheSet key (CProduct p) (Some 1800) ?w2 = (Inr (), ?w3)"
        using f2 by (rule cacheSet_noFaults)
      have f3: "faults ?w3 = (\<lambda>_. None)"
        using f2 by (simp add: faults_emit emit_def)
      have "decodeScanTry decode request w = (Inr (answer (Some (CProduct p)) False), ?w')"
        using False
        by (simp add: body await_Inr [where m = "cacheGet key" and w = w, OF get]
            await_Inr [where m = "getProductByBarcode raw" and w = w1, OF hit]
            await_Inr [where m = "cacheSet key (CProduct p) (Some 1800)" and w = "?w2", OF stored3]
            await_resolve await_assoc logged)
      moreover have "trace ?w' = trace w @ [CacheGet key] @ calls @ [CacheSet key] @ counters"
        using counted [OF f3] t2 by (simp add: emit_fields)
      moreover have "map_of (cache ?w') key = Some (CProduct p, Some 1800)"
        using kept [of "Some (CProduct p)" ?w3] by (simp add: update_conv')
      ultimately show ?thesis
        using False known by simp
    qed
  qed
  then obtain w' where tried: "decodeScanTry decode request w =
        (Inr (answer (if truthy (cachedValue w key) then cachedValue w key
                      else map_option CProduct found)
                (truthy (cachedValue w key))), w')"
      and traced: "trace w' = trace w @ [CacheGet key]
            @ (if truthy (cachedValue w key) then []
               else calls @ (case found of None \<Rightarrow> [] | Some p \<Rightarrow> [CacheSet key]))
            @ counters"
      and after: "map_of (cache w') key =
           (if truthy (cachedValue w key) then map_of (cache w) key
            else (case found of
                    None \<Rightarrow> map_of (cache w) key
                  | Some p \<Rightarrow> Some (CProduct p, Some 1800)))"
    by blast
  have whole: "decodeScan decode request w = decodeScanTry decode request w"
    using tried by (simp add: decodeScan_def tryCatch_passed)
  have ok: "truthy v \<Longrightarrow> v \<noteq> None" for v
    by (cases v) (simp_all add: truthy_def)
  have wrapped: "truthy (map_option CProduct x) = (x \<noteq> None)" for x
    by (cases x) (simp_all add: truthy_def)
  have "fst (decodeScan decode request w) =
         Inr \<lparr>ScanDecodeResponse.success =
                ((if truthy (cachedValue w key) then cachedValue w key
                  else map_option CProduct found) \<noteq> None),
              ScanDecodeResponse.product =
                (if truthy (cachedValue w key) then cachedValue w key
                 else map_option CProduct found),
              ScanDecodeResponse.barcode = decode (ScanDecodeRequest.barcode request),
              cached = truthy (cachedValue w key),
              ScanDecodeResponse.message =
                Some (if (if truthy (cachedValue w key) then cachedValue w key
                          else map_option CProduct found) \<noteq> None
                      then ''Product found''
                      else ''Barcode decoded but product not in database'')\<rparr>
       \<and> trace (snd (decodeScan decode request w)) =
           trace w @ [CacheGet key]
             @ (if truthy (cachedValue w key) then []
                else CacheGet pkey
                  # (case cachedProduct w pkey of
                       Some p \<Rightarrow> []
                     | None \<Rightarrow>
                         RepoFindByBarcode (normalize_barcode raw)
                           # (case stored of None \<Rightarrow> [] | Some p \<Rightarrow> [CacheSet pkey]))
                  @ (case found of None \<Rightarrow> [] | Some p \<Rightarrow> [CacheSet key]))
             @ counters
       \<and> map_of (cache (snd (decodeScan decode request w))) key =
           (if truthy (cachedValue w key) then map_of (cache w) key
            else (case found of
                    None \<Rightarrow> map_of (cache w) key
                  | Some p \<Rightarrow> Some (CProduct p, Some 1800)))"
    unfolding whole tried
    using traced after ok [of "cachedValue w key"]
    by (simp add: answer_def calls_def wrapped)
  then show "(let raw = rawValue (decode (ScanDecodeRequest.barcode request));
          key = ''scan:product:'' @ raw;
          pkey = ''product:barcode:'' @ normalize_barcode raw;
          stored = find (\<lambda>p. Product.barcode p = normalize_barcode raw) (products w);
          found = (case cachedProduct w pkey of Some p \<Rightarrow> Some p | None \<Rightarrow> stored);
          hit = truthy (cachedValue w key);
          product = (if hit then cachedValue w key else map_option CProduct found);
          counters = [CacheIncrement ''metrics:total-scans'',
                      CacheIncrement ''metrics:scans:lookup''];
          w' = snd (decodeScan decode request w)
      in fst (decodeScan decode request w) =
           Inr \<lparr>ScanDecodeResponse.success = (product \<noteq> None),
                ScanDecodeResponse.product = product,
                ScanDecodeResponse.barcode = decode (ScanDecodeRequest.barcode request),
                cached = hit,
                ScanDecodeResponse.message =
                  Some (if product \<noteq> None then ''Product found''
                        else ''Barcode decoded but product not in database'')\<rparr>
         \<and> trace w' =
             trace w @ [CacheGet key]
               @ (if hit then []
                  else CacheGet pkey
                    # (case cachedProduct w pkey of
                         Some p \<Rightarrow> []
                       | None \<Rightarrow>
                           RepoFindByBarcode (normalize_barcode raw)
                             # (case stored of None \<Rightarrow> [] | Some p \<Rightarrow> [CacheSet pkey]))
                    @ (case found of None \<Rightarrow> [] | Some p \<Rightarrow> [CacheSet key]))
               @ counters
         \<and> map_of (cache w') key =
             (if hit then map_of (cache w) key
              else (case found of
                      None \<Rightarrow> map_of (cache w) key
                    | Some p \<Rightarrow> Some (CProduct p, Some 1800))))"
    unfolding Let_def raw_def [symmetric] key_def [symmetric] pkey_def [symmetric]
      stored_def [symmetric] found_def [symmetric] counters_def [symmetric] .
qed

theorem decodeScan_resolution_witness:
  "faults (shop (\<lambda>_. None)) = (\<lambda>_. None)
   \<and> fst (decodeScan decodeRaw lookupAbc (shop (\<lambda>_. None))) =
       Inr \<lparr>ScanDecodeResponse.success = True,
            ScanDecodeResponse.product = Some (CProduct widget),
            ScanDecodeResponse.barcode = decodeRaw ''abc-1'',
            cached = False,
            ScanDecodeResponse.message = Some ''Product found''\<rparr>
   \<and> trace (snd (decodeScan decodeRaw lookupAbc (shop (\<lambda>_. None)))) =
       [CacheGet ''scan:product:abc-1'', CacheGet ''product:barcode:ABC1'',
        RepoFindByBarcode ''ABC1'', CacheSet ''product:barcode:ABC1'',
        CacheSet ''scan:product:abc-1'',
        CacheIncrement ''metrics:total-scans'', CacheIncrement ''metrics:scans:lookup'']
   \<and> map_of (cache (snd (decodeScan decodeRaw lookupAbc (shop (\<lambda>_. None)))))
         ''scan:product:abc-1'' = Some (CProduct widget, Some 1800)"
proof -
  have nofaults: "faults (shop (\<lambda>_. None)) = (\<lambda>_. None)"
    by (simp add: shop_def)
  have raw: "rawValue (decodeRaw ''abc-1'') = ''abc-1''"
      "ScanDecodeRequest.barcode lookupAbc = ''abc-1''"
    by (simp_all add: decodeRaw_def lookupAbc_def)
  have empty: "cachedValue (shop (\<lambda>_. None)) key = None"
      "cachedProduct (shop (\<lambda>_. None)) key = None"
      "map_of (cache (shop (\<lambda>_. None))) key = None" for key
    by (simp_all add: cachedValue_def cachedProduct_def shop_def)
  have stored: "find (\<lambda>p. Product.barcode p = ''ABC1'') (products (shop (\<lambda>_. None)))
      = Some widget"
    by (simp add: shop_def widget_def)
  have fresh: "trace (shop (\<lambda>_. None)) = []"
    by (simp add: shop_def)
  show ?thesis
    using decodeScan_resolution [of "shop (\<lambda>_. None)" decodeRaw lookupAbc] nofaults
    by (simp add: Let_def raw normalize_abc empty stored fresh truthy_def)
qed


section \<open>Invalidation after a stock mutation\<close>


text \<open>
  C3. A \<open>quickAdd\<close> of five units of the product in the sample shop succeeds and
  reports fifteen on hand. Its calls are, in order: the cache-aside lookup, the two
  counters of \<open>logScan\<close>, and the two deletes of the cache keys of the product. No
  call writes the inventory to the repository, whose row still has ten on hand: the
  deletes are not preceded by a durable write.
\<close>

theorem quickAdd_invalidates_without_durable_write:
  "fst (quickAdd addFive ''u1'' (shop (\<lambda>_. None))) =
       Inr \<lparr>QuickAddResponse.success = True,
            QuickAddResponse.product =
              Some (widget\<lparr>inventory := Some \<lparr>quantityOnHand = 15, quantityReserved = 0,
                                             reorderLevel = 10, reorderQuantity = 50\<rparr>\<rparr>),
            QuickAddResponse.quantity = 5,
            newStock = 15,
            QuickAddResponse.message = ''Successfully added 5 units of Widget''\<rparr>
   \<and> trace (snd (quickAdd addFive ''u1'' (shop (\<lambda>_. None)))) =
       [CacheGet ''product:barcode:ABC1'', RepoFindByBarcode ''ABC1'',
        CacheSet ''product:barcode:ABC1'', CacheIncrement ''metrics:total-scans'',
        CacheIncrement ''metrics:scans:add'',
        CacheDelete ''product:p1'', CacheDelete ''product:barcode:ABC1'']
   \<and> products (snd (quickAdd addFive ''u1'' (shop (\<lambda>_. None)))) = [widget]
   \<and> map_option quantityOnHand (inventory widget) = Some 10"
  by code_simp

text \<open>
  C4. A \<open>receiveInventory\<close> of five units of the same product succeeds and reports
  fifteen on hand, and issues no delete: after it the cache still holds, under
  \<open>product:barcode:ABC1\<close>, the product with ten on hand. After the \<open>quickAdd\<close> of
  the same five units the key is gone.
\<close>

theorem receiveInventory_leaves_cache_entries:
  "fst (receiveInventory ''abc-1'' 5 None None (shop (\<lambda>_. None))) =
       Inr \<lparr>QuickAddResponse.success = True,
            QuickAddResponse.product =
              Some (widget\<lparr>inventory := Some \<lparr>quantityOnHand = 15, quantityReserved = 0,
                                             reorderLevel = 10, reorderQuantity = 50\<rparr>\<rparr>),
            QuickAddResponse.quantity = 5,
            newStock = 15,
            QuickAddResponse.message = ''Received 5 units''\<rparr>
   \<and> trace (snd (receiveInventory ''abc-1'' 5 None None (shop (\<lambda>_. None)))) =
       [CacheGet ''product:barcode:ABC1'', RepoFindByBarcode ''ABC1'',
        CacheSet ''product:barcode:ABC1'', CacheIncrement ''metrics:total-scans'',
        CacheIncrement ''metrics:scans:receive'']
   \<and> map_of (cache (snd (receiveInventory ''abc-1'' 5 None None (shop (\<lambda>_. None)))))
         ''product:barcode:ABC1'' = Some (CProduct widget, None)
   \<and> map_of (cache (snd (quickAdd addFive ''u1'' (shop (\<lambda>_. None)))))
         ''product:barcode:ABC1'' = None"
  by code_simp


section \<open>Accumulation of stock\<close>

text \<open>
  C1. Two \<open>quickAdd\<close> calls on the same barcode, of five and of three units, the
  second after the first has returned: the first reports fifteen on hand, the second
  thirteen, and the row of the repository still has ten. The second lookup goes to the
  repository again (the first call deleted the cache keys) and finds the row as it
  was, because no call wrote the first addition back: the stock does not grow by eight.
\<close>

theorem second_quickAdd_loses_the_first:
  "map_option quantityOnHand (inventory widget) = Some 10
   \<and> map_sum id newStock (fst (quickAdd addFive ''u1'' (shop (\<lambda>_. None)))) = Inr 15
   \<and> fst (quickAdd addThree ''u2'' (snd (quickAdd addFive ''u1'' (shop (\<lambda>_. None))))) =
       Inr \<lparr>QuickAddResponse.success = True,
            QuickAddResponse.product =
              Some (widget\<lparr>inventory := Some \<lparr>quantityOnHand = 13, quantityReserved = 0,
                                             reorderLevel = 10, reorderQuantity = 50\<rparr>\<rparr>),
            QuickAddResponse.quantity = 3,
            newStock = 13,
            QuickAddResponse.message = ''Successfully added 3 units of Widget''\<rparr>
   \<and> products (snd (quickAdd addThree ''u2'' (snd (quickAdd addFive ''u1'' (shop (\<lambda>_. None))))))
       = [widget]
   \<and> trace (snd (quickAdd addThree ''u2'' (snd (quickAdd addFive ''u1'' (shop (\<lambda>_. None)))))) =
       [CacheGet ''product:barcode:ABC1'', RepoFindByBarcode ''ABC1'',
        CacheSet ''product:barcode:ABC1'', CacheIncrement ''metrics:total-scans'',
        CacheIncrement ''metrics:scans:add'',
        CacheDelete ''product:p1'', CacheDelete ''product:barcode:ABC1'',
        CacheGet ''product:barcode:ABC1'', RepoFindByBarcode ''ABC1'',
        CacheSet ''product:barcode:ABC1'', CacheIncrement ''metrics:total-scans'',
        CacheIncrement ''metrics:scans:add'',
        CacheDelete ''product:p1'', CacheDelete ''product:barcode:ABC1'']"
  by code_simp

section \<open>Creation of products\<close>




















text \<open>
  Two requests whose barcodes differ and normalize to the same value, against an empty
  shop: the first is stored under the normalized barcode; the second passes the
  duplicate check (the repository is asked for \<open>ABC 1\<close>, which is not stored) and is
  rejected at the insert. One row is stored.
\<close>

lemma second_create_is_rejected:
  "''abc-1'' \<noteq> ''ABC 1''
   \<and> normalize_barcode ''abc-1'' = normalize_barcode ''ABC 1''
   \<and> map_sum id Product.barcode (fst (createProduct decodeRaw (newProduct ''abc-1'') ''u1'' emptyShop))
       = Inr ''ABC1''
   \<and> fst (createProduct decodeRaw (newProduct ''ABC 1'') ''u2''
            (snd (createProduct decodeRaw (newProduct ''abc-1'') ''u1'' emptyShop))) =
       Inl (Error ''Error''
         ''Error creating entity: QueryFailedError: duplicate key value violates unique constraint'')
   \<and> trace (snd (createProduct decodeRaw (newProduct ''ABC 1'') ''u2''
            (snd (createProduct decodeRaw (newProduct ''abc-1'') ''u1'' emptyShop)))) =
       [RepoFindByBarcode ''abc-1'', RepoSave ''ABC1'',
        CacheDeleteByPattern ''products:*'', CacheDeleteByPattern ''search:*'',
        RepoFindByBarcode ''ABC 1'', RepoSave ''ABC1'']
   \<and> map Product.barcode
         (products (snd (createProduct decodeRaw (newProduct ''ABC 1'') ''u2''
            (snd (createProduct decodeRaw (newProduct ''abc-1'') ''u1'' emptyShop))))) = [''ABC1'']"
  by code_simp

end
